theory Spec2Isabelle
  imports Main "HOL-Library.Sublist"
begin

section \<open>The API client of the Nginx Proxy Manager adapter\<close>

text \<open>
  A shallow embedding of \<^verbatim>\<open>api-client.ts\<close> (class \<^verbatim>\<open>NpmApiClient\<close>), of the start-up
  code of \<^verbatim>\<open>cli.ts\<close> and \<^verbatim>\<open>index.ts\<close>, and of the command dispatch of \<^verbatim>\<open>cli.ts\<close>.

  Promises are modelled by their settled value: a rejected promise (a thrown error) is
  \<open>Inl\<close>, a fulfilled one is \<open>Inr\<close>. The mutable fields of the client are passed in and
  returned. Every call of \<^verbatim>\<open>fetch\<close> is recorded, in order, in a list of requests.
\<close>

subsection \<open>JavaScript values\<close>

text \<open>
  Numbers are the integers and \<^verbatim>\<open>NaN\<close>: the numbers that \<^verbatim>\<open>parseInt\<close> yields and that
  identify remote resources. Fractions, infinities and the rounding of integers beyond
  \<open>2^53\<close> are outside the model.
\<close>

datatype number = NaN | Number int

datatype jsvalue =
    Undefined
  | Null
  | Bool bool
  | Num number
  | String string
  | Array "jsvalue list"
  | Object "(string \<times> jsvalue) list"

text \<open>Truthiness, as \<^verbatim>\<open>if (v)\<close>, \<^verbatim>\<open>v || d\<close> and \<^verbatim>\<open>v ? a : b\<close> test it.\<close>

fun truthy :: "jsvalue \<Rightarrow> bool" where
  "truthy Undefined = False"
| "truthy Null = False"
| "truthy (Bool b) = b"
| "truthy (Num NaN) = False"
| "truthy (Num (Number n)) = (n \<noteq> 0)"
| "truthy (String s) = (s \<noteq> [])"
| "truthy (Array xs) = True"
| "truthy (Object kvs) = True"

text \<open>Decimal rendering of a number inside a template literal.\<close>

fun digits :: "nat \<Rightarrow> string" where
  "digits n =
     (if n < 10 then [char_of (48 + n)]
      else digits (n div 10) @ [char_of (48 + n mod 10)])"

declare digits.simps [simp del]

definition show_int :: "int \<Rightarrow> string" where
  "show_int i = (if i < 0 then CHR ''-'' # digits (nat (- i)) else digits (nat i))"

subsection \<open>Errors\<close>

text \<open>An error object: its \<^verbatim>\<open>name\<close> and its \<^verbatim>\<open>message\<close>.\<close>

record error =
  name :: string
  message :: string

definition Error :: "string \<Rightarrow> error" where
  "Error msg = \<lparr>name = ''Error'', message = msg\<rparr>"

text \<open>
  \<^verbatim>\<open>class ReadonlyModeError extends Error\<close>: the message is
  \<^verbatim>\<open>Operation "${operation}" is not allowed in readonly mode\<close>.
\<close>

definition ReadonlyModeError :: "string \<Rightarrow> error" where
  "ReadonlyModeError operation =
     \<lparr>name = ''ReadonlyModeError'',
      message = ''Operation '' @ [CHR 0x22] @ operation @ [CHR 0x22]
                @ '' is not allowed in readonly mode''\<rparr>"

subsection \<open>HTTP and the runtime\<close>

record request =
  http_method :: string
  url :: string
  headers :: "(string \<times> string) list"
  body :: "jsvalue option"

text \<open>
  \<open>http_method\<close> is the \<^verbatim>\<open>method\<close> of the request. Its \<open>body\<close> is the value handed to
  \<^verbatim>\<open>JSON.stringify\<close>; \<open>None\<close> is a request without a body. A response is its status
  code and its body text.
\<close>

record response =
  status :: nat
  response_text :: string

definition ok :: "response \<Rightarrow> bool" where
  "ok r = (200 \<le> status r \<and> status r \<le> 299)"

record TokenResponse =
  token :: string
  expires :: string

text \<open>
  What the client does not own: the remote service behind \<^verbatim>\<open>fetch\<close> (which may also
  reject, on a transport failure), \<^verbatim>\<open>response.json()\<close> (which rejects on a body that is
  not JSON), and the parsing of a date string by \<^verbatim>\<open>new Date(s)\<close>, whose time value is
  in milliseconds, \<open>None\<close> for an invalid date. \<open>json_token\<close> is \<^verbatim>\<open>response.json()\<close> under
  the type assertion \<^verbatim>\<open>as TokenResponse\<close>, which the code trusts.
\<close>

record runtime =
  fetch :: "request \<Rightarrow> error + response"
  json :: "string \<Rightarrow> error + jsvalue"
  json_token :: "string \<Rightarrow> error + TokenResponse"
  Date :: "string \<Rightarrow> int option"
  parseInt :: "string \<Rightarrow> number"

subsection \<open>The client\<close>

record NpmConfig =
  baseUrl :: string
  email :: string
  password :: string
  readonly :: "bool option"

text \<open>
  The fields of \<^verbatim>\<open>NpmApiClient\<close>, prefixed \<open>c_\<close> to keep them apart from those of the
  configuration (\<open>c_readonly\<close> is \<^verbatim>\<open>_readonly\<close>). \<open>c_tokenExpires\<close> is \<^verbatim>\<open>Date | null\<close>: \<open>None\<close> is
  \<^verbatim>\<open>null\<close>, \<open>Some None\<close> an invalid date, \<open>Some (Some t)\<close> a date with time value \<open>t\<close>.
\<close>

record client =
  c_baseUrl :: string
  c_token :: "string option"
  c_tokenExpires :: "int option option"
  c_email :: string
  c_password :: string
  c_readonly :: bool

text \<open>\<^verbatim>\<open>config.baseUrl.replace(/\/$/, "")\<close>: one slash at the very end is removed.\<close>

definition strip_trailing_slash :: "string \<Rightarrow> string" where
  "strip_trailing_slash s = (if s \<noteq> [] \<and> last s = CHR ''/'' then butlast s else s)"

definition NpmApiClient :: "NpmConfig \<Rightarrow> client" where
  "NpmApiClient config =
     \<lparr>c_baseUrl = strip_trailing_slash (baseUrl config),
      c_token = None,
      c_tokenExpires = None,
      c_email = email config,
      c_password = password config,
      c_readonly = (case readonly config of None \<Rightarrow> False | Some b \<Rightarrow> b)\<rparr>"

definition isReadonly :: "client \<Rightarrow> bool" where
  "isReadonly c = c_readonly c"

definition assertWritable :: "client \<Rightarrow> string \<Rightarrow> error + unit" where
  "assertWritable c operation =
     (if c_readonly c then Inl (ReadonlyModeError operation) else Inr ())"

text \<open>
  The outcome of an asynchronous method: how its promise settles, the client's fields
  afterwards, and the requests it passed to \<^verbatim>\<open>fetch\<close>, in order.
\<close>

type_synonym 'a outcome = "(error + 'a) \<times> client \<times> request list"

definition settled :: "'a outcome \<Rightarrow> error + 'a" where
  "settled out = fst out"

definition after :: "'a outcome \<Rightarrow> client" where
  "after out = fst (snd out)"

definition sent :: "'a outcome \<Rightarrow> request list" where
  "sent out = snd (snd out)"

text \<open>
  \<^verbatim>\<open>this.token && this.tokenExpires && this.tokenExpires > new Date()\<close>: an empty string
  is falsy, a \<^verbatim>\<open>Date\<close> object is truthy, and the comparison with an invalid date is false.
  \<open>now\<close> is the time value of \<^verbatim>\<open>new Date()\<close>. The result is the token that the first
  \<^verbatim>\<open>return\<close> of \<^verbatim>\<open>ensureToken\<close> hands out, if the test succeeds.
\<close>

definition cached_token :: "int \<Rightarrow> client \<Rightarrow> string option" where
  "cached_token now c =
     (case c_token c of
        None \<Rightarrow> None
      | Some t \<Rightarrow>
          if t \<noteq> [] \<and>
             (case c_tokenExpires c of
                None \<Rightarrow> False
              | Some d \<Rightarrow> (case d of None \<Rightarrow> False | Some e \<Rightarrow> now < e))
          then Some t else None)"

definition token_request :: "client \<Rightarrow> request" where
  "token_request c =
     \<lparr>http_method = ''POST'',
      url = c_baseUrl c @ ''/api/tokens'',
      headers = [(''Content-Type'', ''application/json'')],
      body = Some (Object [(''identity'', String (c_email c)),
                           (''secret'', String (c_password c))])\<rparr>"

definition ensureToken :: "runtime \<Rightarrow> int \<Rightarrow> client \<Rightarrow> string outcome" where
  "ensureToken rt now c =
     (case cached_token now c of
        Some t \<Rightarrow> (Inr t, c, [])
      | None \<Rightarrow>
          (case fetch rt (token_request c) of
             Inl e \<Rightarrow> (Inl e, c, [token_request c])
           | Inr response \<Rightarrow>
               if \<not> ok response
               then (Inl (Error (''Authentication failed: '' @ response_text response)),
                     c, [token_request c])
               else
                 (case json_token rt (response_text response) of
                    Inl e \<Rightarrow> (Inl e, c, [token_request c])
                  | Inr data \<Rightarrow>
                      (Inr (token data),
                       c\<lparr>c_token := Some (token data),
                         c_tokenExpires := Some (Date rt (expires data))\<rparr>,
                       [token_request c]))))"

definition api_request :: "client \<Rightarrow> string \<Rightarrow> string \<Rightarrow> string \<Rightarrow> jsvalue \<Rightarrow> request" where
  "api_request c tok meth path data =
     \<lparr>http_method = meth,
      url = c_baseUrl c @ ''/api'' @ path,
      headers = [(''Content-Type'', ''application/json''),
                 (''Authorization'', ''Bearer '' @ tok)],
      body = (if truthy data then Some data else None)\<rparr>"

text \<open>
  \<^verbatim>\<open>request<T>(method, path, body?)\<close>. An omitted \<open>body\<close> is \<open>Undefined\<close>. The status is
  rendered in decimal.
\<close>

definition request :: "runtime \<Rightarrow> int \<Rightarrow> client \<Rightarrow> string \<Rightarrow> string \<Rightarrow> jsvalue \<Rightarrow> jsvalue outcome" where
  "request rt now c meth path data =
     (case ensureToken rt now c of
        (Inl e, c', rs) \<Rightarrow> (Inl e, c', rs)
      | (Inr tok, c', rs) \<Rightarrow>
          (case fetch rt (api_request c' tok meth path data) of
             Inl e \<Rightarrow> (Inl e, c', rs @ [api_request c' tok meth path data])
           | Inr response \<Rightarrow>
               if \<not> ok response
               then (Inl (Error (''API request failed: '' @ digits (status response)
                                 @ '' - '' @ response_text response)),
                     c', rs @ [api_request c' tok meth path data])
               else if status response = 204
               then (Inr (Object []), c', rs @ [api_request c' tok meth path data])
               else
                 (case json rt (response_text response) of
                    Inl e \<Rightarrow> (Inl e, c', rs @ [api_request c' tok meth path data])
                  | Inr v \<Rightarrow> (Inr v, c', rs @ [api_request c' tok meth path data]))))"

subsection \<open>The operations\<close>

text \<open>
  One definition per public method, in the order of the class. A resource id is an
  integer, rendered in decimal inside the path. The \<^verbatim>\<open>delete\<close> methods await the request
  and return nothing: their promise is fulfilled with \<^verbatim>\<open>undefined\<close>.
\<close>

definition returning_void :: "jsvalue outcome \<Rightarrow> jsvalue outcome" where
  "returning_void out =
     (case out of
        (Inl e, c, rs) \<Rightarrow> (Inl e, c, rs)
      | (Inr v, c, rs) \<Rightarrow> (Inr Undefined, c, rs))"

definition listProxyHosts :: "runtime \<Rightarrow> int \<Rightarrow> client \<Rightarrow> jsvalue outcome" where
  "listProxyHosts rt now c = request rt now c ''GET'' ''/nginx/proxy-hosts'' Undefined"

definition getProxyHost :: "runtime \<Rightarrow> int \<Rightarrow> client \<Rightarrow> int \<Rightarrow> jsvalue outcome" where
  "getProxyHost rt now c i = request rt now c ''GET'' (''/nginx/proxy-hosts/'' @ show_int i) Undefined"

definition createProxyHost :: "runtime \<Rightarrow> int \<Rightarrow> client \<Rightarrow> jsvalue \<Rightarrow> jsvalue outcome" where
  "createProxyHost rt now c data =
     (case assertWritable c ''createProxyHost'' of
        Inl e \<Rightarrow> (Inl e, c, [])
      | Inr _ \<Rightarrow> request rt now c ''POST'' ''/nginx/proxy-hosts'' data)"

definition updateProxyHost :: "runtime \<Rightarrow> int \<Rightarrow> client \<Rightarrow> int \<Rightarrow> jsvalue \<Rightarrow> jsvalue outcome" where
  "updateProxyHost rt now c i data =
     (case assertWritable c ''updateProxyHost'' of
        Inl e \<Rightarrow> (Inl e, c, [])
      | Inr _ \<Rightarrow> request rt now c ''PUT'' (''/nginx/proxy-hosts/'' @ show_int i) data)"

definition deleteProxyHost :: "runtime \<Rightarrow> int \<Rightarrow> client \<Rightarrow> int \<Rightarrow> jsvalue outcome" where
  "deleteProxyHost rt now c i =
     (case assertWritable c ''deleteProxyHost'' of
        Inl e \<Rightarrow> (Inl e, c, [])
      | Inr _ \<Rightarrow> returning_void (request rt now c ''DELETE'' (''/nginx/proxy-hosts/'' @ show_int i) Undefined))"

definition enableProxyHost :: "runtime \<Rightarrow> int \<Rightarrow> client \<Rightarrow> int \<Rightarrow> jsvalue outcome" where
  "enableProxyHost rt now c i =
     (case assertWritable c ''enableProxyHost'' of
        Inl e \<Rightarrow> (Inl e, c, [])
      | Inr _ \<Rightarrow> request rt now c ''POST'' (''/nginx/proxy-hosts/'' @ show_int i @ ''/enable'') Undefined)"

definition disableProxyHost :: "runtime \<Rightarrow> int \<Rightarrow> client \<Rightarrow> int \<Rightarrow> jsvalue outcome" where
  "disableProxyHost rt now c i =
     (case assertWritable c ''disableProxyHost'' of
        Inl e \<Rightarrow> (Inl e, c, [])
      | Inr _ \<Rightarrow> request rt now c ''POST'' (''/nginx/proxy-hosts/'' @ show_int i @ ''/disable'') Undefined)"

definition listCertificates :: "runtime \<Rightarrow> int \<Rightarrow> client \<Rightarrow> jsvalue outcome" where
  "listCertificates rt now c = request rt now c ''GET'' ''/nginx/certificates'' Undefined"

definition getCertificate :: "runtime \<Rightarrow> int \<Rightarrow> client \<Rightarrow> int \<Rightarrow> jsvalue outcome" where
  "getCertificate rt now c i = request rt now c ''GET'' (''/nginx/certificates/'' @ show_int i) Undefined"

definition deleteCertificate :: "runtime \<Rightarrow> int \<Rightarrow> client \<Rightarrow> int \<Rightarrow> jsvalue outcome" where
  "deleteCertificate rt now c i =
     (case assertWritable c ''deleteCertificate'' of
        Inl e \<Rightarrow> (Inl e, c, [])
      | Inr _ \<Rightarrow> returning_void (request rt now c ''DELETE'' (''/nginx/certificates/'' @ show_int i) Undefined))"

definition renewCertificate :: "runtime \<Rightarrow> int \<Rightarrow> client \<Rightarrow> int \<Rightarrow> jsvalue outcome" where
  "renewCertificate rt now c i =
     (case assertWritable c ''renewCertificate'' of
        Inl e \<Rightarrow> (Inl e, c, [])
      | Inr _ \<Rightarrow> request rt now c ''POST'' (''/nginx/certificates/'' @ show_int i @ ''/renew'') Undefined)"

definition listStreams :: "runtime \<Rightarrow> int \<Rightarrow> client \<Rightarrow> jsvalue outcome" where
  "listStreams rt now c = request rt now c ''GET'' ''/nginx/streams'' Undefined"

definition getStream :: "runtime \<Rightarrow> int \<Rightarrow> client \<Rightarrow> int \<Rightarrow> jsvalue outcome" where
  "getStream rt now c i = request rt now c ''GET'' (''/nginx/streams/'' @ show_int i) Undefined"

definition createStream :: "runtime \<Rightarrow> int \<Rightarrow> client \<Rightarrow> jsvalue \<Rightarrow> jsvalue outcome" where
  "createStream rt now c data =
     (case assertWritable c ''createStream'' of
        Inl e \<Rightarrow> (Inl e, c, [])
      | Inr _ \<Rightarrow> request rt now c ''POST'' ''/nginx/streams'' data)"

definition updateStream :: "runtime \<Rightarrow> int \<Rightarrow> client \<Rightarrow> int \<Rightarrow> jsvalue \<Rightarrow> jsvalue outcome" where
  "updateStream rt now c i data =
     (case assertWritable c ''updateStream'' of
        Inl e \<Rightarrow> (Inl e, c, [])
      | Inr _ \<Rightarrow> request rt now c ''PUT'' (''/nginx/streams/'' @ show_int i) data)"

definition deleteStream :: "runtime \<Rightarrow> int \<Rightarrow> client \<Rightarrow> int \<Rightarrow> jsvalue outcome" where
  "deleteStream rt now c i =
     (case assertWritable c ''deleteStream'' of
        Inl e \<Rightarrow> (Inl e, c, [])
      | Inr _ \<Rightarrow> returning_void (request rt now c ''DELETE'' (''/nginx/streams/'' @ show_int i) Undefined))"

definition enableStream :: "runtime \<Rightarrow> int \<Rightarrow> client \<Rightarrow> int \<Rightarrow> jsvalue outcome" where
  "enableStream rt now c i =
     (case assertWritable c ''enableStream'' of
        Inl e \<Rightarrow> (Inl e, c, [])
      | Inr _ \<Rightarrow> request rt now c ''POST'' (''/nginx/streams/'' @ show_int i @ ''/enable'') Undefined)"

definition disableStream :: "runtime \<Rightarrow> int \<Rightarrow> client \<Rightarrow> int \<Rightarrow> jsvalue outcome" where
  "disableStream rt now c i =
     (case assertWritable c ''disableStream'' of
        Inl e \<Rightarrow> (Inl e, c, [])
      | Inr _ \<Rightarrow> request rt now c ''POST'' (''/nginx/streams/'' @ show_int i @ ''/disable'') Undefined)"

definition listRedirectionHosts :: "runtime \<Rightarrow> int \<Rightarrow> client \<Rightarrow> jsvalue outcome" where
  "listRedirectionHosts rt now c = request rt now c ''GET'' ''/nginx/redirection-hosts'' Undefined"

definition getRedirectionHost :: "runtime \<Rightarrow> int \<Rightarrow> client \<Rightarrow> int \<Rightarrow> jsvalue outcome" where
  "getRedirectionHost rt now c i = request rt now c ''GET'' (''/nginx/redirection-hosts/'' @ show_int i) Undefined"

definition createRedirectionHost :: "runtime \<Rightarrow> int \<Rightarrow> client \<Rightarrow> jsvalue \<Rightarrow> jsvalue outcome" where
  "createRedirectionHost rt now c data =
     (case assertWritable c ''createRedirectionHost'' of
        Inl e \<Rightarrow> (Inl e, c, [])
      | Inr _ \<Rightarrow> request rt now c ''POST'' ''/nginx/redirection-hosts'' data)"

definition updateRedirectionHost :: "runtime \<Rightarrow> int \<Rightarrow> client \<Rightarrow> int \<Rightarrow> jsvalue \<Rightarrow> jsvalue outcome" where
  "updateRedirectionHost rt now c i data =
     (case assertWritable c ''updateRedirectionHost'' of
        Inl e \<Rightarrow> (Inl e, c, [])
      | Inr _ \<Rightarrow> request rt now c ''PUT'' (''/nginx/redirection-hosts/'' @ show_int i) data)"

definition deleteRedirectionHost :: "runtime \<Rightarrow> int \<Rightarrow> client \<Rightarrow> int \<Rightarrow> jsvalue outcome" where
  "deleteRedirectionHost rt now c i =
     (case assertWritable c ''deleteRedirectionHost'' of
        Inl e \<Rightarrow> (Inl e, c, [])
      | Inr _ \<Rightarrow> returning_void (request rt now c ''DELETE'' (''/nginx/redirection-hosts/'' @ show_int i) Undefined))"

definition enableRedirectionHost :: "runtime \<Rightarrow> int \<Rightarrow> client \<Rightarrow> int \<Rightarrow> jsvalue outcome" where
  "enableRedirectionHost rt now c i =
     (case assertWritable c ''enableRedirectionHost'' of
        Inl e \<Rightarrow> (Inl e, c, [])
      | Inr _ \<Rightarrow> request rt now c ''POST'' (''/nginx/redirection-hosts/'' @ show_int i @ ''/enable'') Undefined)"

definition disableRedirectionHost :: "runtime \<Rightarrow> int \<Rightarrow> client \<Rightarrow> int \<Rightarrow> jsvalue outcome" where
  "disableRedirectionHost rt now c i =
     (case assertWritable c ''disableRedirectionHost'' of
        Inl e \<Rightarrow> (Inl e, c, [])
      | Inr _ \<Rightarrow> request rt now c ''POST'' (''/nginx/redirection-hosts/'' @ show_int i @ ''/disable'') Undefined)"

definition listDeadHosts :: "runtime \<Rightarrow> int \<Rightarrow> client \<Rightarrow> jsvalue outcome" where
  "listDeadHosts rt now c = request rt now c ''GET'' ''/nginx/dead-hosts'' Undefined"

definition getDeadHost :: "runtime \<Rightarrow> int \<Rightarrow> client \<Rightarrow> int \<Rightarrow> jsvalue outcome" where
  "getDeadHost rt now c i = request rt now c ''GET'' (''/nginx/dead-hosts/'' @ show_int i) Undefined"

definition createDeadHost :: "runtime \<Rightarrow> int \<Rightarrow> client \<Rightarrow> jsvalue \<Rightarrow> jsvalue outcome" where
  "createDeadHost rt now c data =
     (case assertWritable c ''createDeadHost'' of
        Inl e \<Rightarrow> (Inl e, c, [])
      | Inr _ \<Rightarrow> request rt now c ''POST'' ''/nginx/dead-hosts'' data)"

definition updateDeadHost :: "runtime \<Rightarrow> int \<Rightarrow> client \<Rightarrow> int \<Rightarrow> jsvalue \<Rightarrow> jsvalue outcome" where
  "updateDeadHost rt now c i data =
     (case assertWritable c ''updateDeadHost'' of
        Inl e \<Rightarrow> (Inl e, c, [])
      | Inr _ \<Rightarrow> request rt now c ''PUT'' (''/nginx/dead-hosts/'' @ show_int i) data)"

definition deleteDeadHost :: "runtime \<Rightarrow> int \<Rightarrow> client \<Rightarrow> int \<Rightarrow> jsvalue outcome" where
  "deleteDeadHost rt now c i =
     (case assertWritable c ''deleteDeadHost'' of
        Inl e \<Rightarrow> (Inl e, c, [])
      | Inr _ \<Rightarrow> returning_void (request rt now c ''DELETE'' (''/nginx/dead-hosts/'' @ show_int i) Undefined))"

definition enableDeadHost :: "runtime \<Rightarrow> int \<Rightarrow> client \<Rightarrow> int \<Rightarrow> jsvalue outcome" where
  "enableDeadHost rt now c i =
     (case assertWritable c ''enableDeadHost'' of
        Inl e \<Rightarrow> (Inl e, c, [])
      | Inr _ \<Rightarrow> request rt now c ''POST'' (''/nginx/dead-hosts/'' @ show_int i @ ''/enable'') Undefined)"

definition disableDeadHost :: "runtime \<Rightarrow> int \<Rightarrow> client \<Rightarrow> int \<Rightarrow> jsvalue outcome" where
  "disableDeadHost rt now c i =
     (case assertWritable c ''disableDeadHost'' of
        Inl e \<Rightarrow> (Inl e, c, [])
      | Inr _ \<Rightarrow> request rt now c ''POST'' (''/nginx/dead-hosts/'' @ show_int i @ ''/disable'') Undefined)"

definition listAccessLists :: "runtime \<Rightarrow> int \<Rightarrow> client \<Rightarrow> jsvalue outcome" where
  "listAccessLists rt now c = request rt now c ''GET'' ''/nginx/access-lists'' Undefined"

definition getAccessList :: "runtime \<Rightarrow> int \<Rightarrow> client \<Rightarrow> int \<Rightarrow> jsvalue outcome" where
  "getAccessList rt now c i = request rt now c ''GET'' (''/nginx/access-lists/'' @ show_int i) Undefined"

definition createAccessList :: "runtime \<Rightarrow> int \<Rightarrow> client \<Rightarrow> jsvalue \<Rightarrow> jsvalue outcome" where
  "createAccessList rt now c data =
     (case assertWritable c ''createAccessList'' of
        Inl e \<Rightarrow> (Inl e, c, [])
      | Inr _ \<Rightarrow> request rt now c ''POST'' ''/nginx/access-lists'' data)"

definition updateAccessList :: "runtime \<Rightarrow> int \<Rightarrow> client \<Rightarrow> int \<Rightarrow> jsvalue \<Rightarrow> jsvalue outcome" where
  "updateAccessList rt now c i data =
     (case assertWritable c ''updateAccessList'' of
        Inl e \<Rightarrow> (Inl e, c, [])
      | Inr _ \<Rightarrow> request rt now c ''PUT'' (''/nginx/access-lists/'' @ show_int i) data)"

definition deleteAccessList :: "runtime \<Rightarrow> int \<Rightarrow> client \<Rightarrow> int \<Rightarrow> jsvalue outcome" where
  "deleteAccessList rt now c i =
     (case assertWritable c ''deleteAccessList'' of
        Inl e \<Rightarrow> (Inl e, c, [])
      | Inr _ \<Rightarrow> returning_void (request rt now c ''DELETE'' (''/nginx/access-lists/'' @ show_int i) Undefined))"

definition listUsers :: "runtime \<Rightarrow> int \<Rightarrow> client \<Rightarrow> jsvalue outcome" where
  "listUsers rt now c = request rt now c ''GET'' ''/users'' Undefined"

definition getUser :: "runtime \<Rightarrow> int \<Rightarrow> client \<Rightarrow> int \<Rightarrow> jsvalue outcome" where
  "getUser rt now c i = request rt now c ''GET'' (''/users/'' @ show_int i) Undefined"

text \<open>
  \<^verbatim>\<open>getHealth\<close> calls \<^verbatim>\<open>fetch\<close> with the URL alone (a \<^verbatim>\<open>GET\<close> without headers or body) and
  returns \<^verbatim>\<open>response.json()\<close> whatever the status is. It reads neither the clock nor the
  token.
\<close>

definition health_request :: "client \<Rightarrow> request" where
  "health_request c =
     \<lparr>http_method = ''GET'', url = c_baseUrl c @ ''/api/'', headers = [], body = None\<rparr>"

definition getHealth :: "runtime \<Rightarrow> client \<Rightarrow> jsvalue outcome" where
  "getHealth rt c =
     (case fetch rt (health_request c) of
        Inl e \<Rightarrow> (Inl e, c, [health_request c])
      | Inr response \<Rightarrow>
          (case json rt (response_text response) of
             Inl e \<Rightarrow> (Inl e, c, [health_request c])
           | Inr v \<Rightarrow> (Inr v, c, [health_request c])))"

text \<open>A call of a public method, as data, so that statements can range over all of them.\<close>

datatype operation =
    ListProxyHosts
  | GetProxyHost int
  | CreateProxyHost jsvalue
  | UpdateProxyHost int jsvalue
  | DeleteProxyHost int
  | EnableProxyHost int
  | DisableProxyHost int
  | ListCertificates
  | GetCertificate int
  | DeleteCertificate int
  | RenewCertificate int
  | ListStreams
  | GetStream int
  | CreateStream jsvalue
  | UpdateStream int jsvalue
  | DeleteStream int
  | EnableStream int
  | DisableStream int
  | ListRedirectionHosts
  | GetRedirectionHost int
  | CreateRedirectionHost jsvalue
  | UpdateRedirectionHost int jsvalue
  | DeleteRedirectionHost int
  | EnableRedirectionHost int
  | DisableRedirectionHost int
  | ListDeadHosts
  | GetDeadHost int
  | CreateDeadHost jsvalue
  | UpdateDeadHost int jsvalue
  | DeleteDeadHost int
  | EnableDeadHost int
  | DisableDeadHost int
  | ListAccessLists
  | GetAccessList int
  | CreateAccessList jsvalue
  | UpdateAccessList int jsvalue
  | DeleteAccessList int
  | ListUsers
  | GetUser int
  | GetHealth

fun perform :: "runtime \<Rightarrow> int \<Rightarrow> client \<Rightarrow> operation \<Rightarrow> jsvalue outcome" where
  "perform rt now c ListProxyHosts = listProxyHosts rt now c"
| "perform rt now c (GetProxyHost i) = getProxyHost rt now c i"
| "perform rt now c (CreateProxyHost data) = createProxyHost rt now c data"
| "perform rt now c (UpdateProxyHost i data) = updateProxyHost rt now c i data"
| "perform rt now c (DeleteProxyHost i) = deleteProxyHost rt now c i"
| "perform rt now c (EnableProxyHost i) = enableProxyHost rt now c i"
| "perform rt now c (DisableProxyHost i) = disableProxyHost rt now c i"
| "perform rt now c ListCertificates = listCertificates rt now c"
| "perform rt now c (GetCertificate i) = getCertificate rt now c i"
| "perform rt now c (DeleteCertificate i) = deleteCertificate rt now c i"
| "perform rt now c (RenewCertificate i) = renewCertificate rt now c i"
| "perform rt now c ListStreams = listStreams rt now c"
| "perform rt now c (GetStream i) = getStream rt now c i"
| "perform rt now c (CreateStream data) = createStream rt now c data"
| "perform rt now c (UpdateStream i data) = updateStream rt now c i data"
| "perform rt now c (DeleteStream i) = deleteStream rt now c i"
| "perform rt now c (EnableStream i) = enableStream rt now c i"
| "perform rt now c (DisableStream i) = disableStream rt now c i"
| "perform rt now c ListRedirectionHosts = listRedirectionHosts rt now c"
| "perform rt now c (GetRedirectionHost i) = getRedirectionHost rt now c i"
| "perform rt now c (CreateRedirectionHost data) = createRedirectionHost rt now c data"
| "perform rt now c (UpdateRedirectionHost i data) = updateRedirectionHost rt now c i data"
| "perform rt now c (DeleteRedirectionHost i) = deleteRedirectionHost rt now c i"
| "perform rt now c (EnableRedirectionHost i) = enableRedirectionHost rt now c i"
| "perform rt now c (DisableRedirectionHost i) = disableRedirectionHost rt now c i"
| "perform rt now c ListDeadHosts = listDeadHosts rt now c"
| "perform rt now c (GetDeadHost i) = getDeadHost rt now c i"
| "perform rt now c (CreateDeadHost data) = createDeadHost rt now c data"
| "perform rt now c (UpdateDeadHost i data) = updateDeadHost rt now c i data"
| "perform rt now c (DeleteDeadHost i) = deleteDeadHost rt now c i"
| "perform rt now c (EnableDeadHost i) = enableDeadHost rt now c i"
| "perform rt now c (DisableDeadHost i) = disableDeadHost rt now c i"
| "perform rt now c ListAccessLists = listAccessLists rt now c"
| "perform rt now c (GetAccessList i) = getAccessList rt now c i"
| "perform rt now c (CreateAccessList data) = createAccessList rt now c data"
| "perform rt now c (UpdateAccessList i data) = updateAccessList rt now c i data"
| "perform rt now c (DeleteAccessList i) = deleteAccessList rt now c i"
| "perform rt now c ListUsers = listUsers rt now c"
| "perform rt now c (GetUser i) = getUser rt now c i"
| "perform rt now c GetHealth = getHealth rt c"

text \<open>The name of the method that an operation calls.\<close>

fun op_name :: "operation \<Rightarrow> string" where
  "op_name ListProxyHosts = ''listProxyHosts''"
| "op_name (GetProxyHost i) = ''getProxyHost''"
| "op_name (CreateProxyHost data) = ''createProxyHost''"
| "op_name (UpdateProxyHost i data) = ''updateProxyHost''"
| "op_name (DeleteProxyHost i) = ''deleteProxyHost''"
| "op_name (EnableProxyHost i) = ''enableProxyHost''"
| "op_name (DisableProxyHost i) = ''disableProxyHost''"
| "op_name ListCertificates = ''listCertificates''"
| "op_name (GetCertificate i) = ''getCertificate''"
| "op_name (DeleteCertificate i) = ''deleteCertificate''"
| "op_name (RenewCertificate i) = ''renewCertificate''"
| "op_name ListStreams = ''listStreams''"
| "op_name (GetStream i) = ''getStream''"
| "op_name (CreateStream data) = ''createStream''"
| "op_name (UpdateStream i data) = ''updateStream''"
| "op_name (DeleteStream i) = ''deleteStream''"
| "op_name (EnableStream i) = ''enableStream''"
| "op_name (DisableStream i) = ''disableStream''"
| "op_name ListRedirectionHosts = ''listRedirectionHosts''"
| "op_name (GetRedirectionHost i) = ''getRedirectionHost''"
| "op_name (CreateRedirectionHost data) = ''createRedirectionHost''"
| "op_name (UpdateRedirectionHost i data) = ''updateRedirectionHost''"
| "op_name (DeleteRedirectionHost i) = ''deleteRedirectionHost''"
| "op_name (EnableRedirectionHost i) = ''enableRedirectionHost''"
| "op_name (DisableRedirectionHost i) = ''disableRedirectionHost''"
| "op_name ListDeadHosts = ''listDeadHosts''"
| "op_name (GetDeadHost i) = ''getDeadHost''"
| "op_name (CreateDeadHost data) = ''createDeadHost''"
| "op_name (UpdateDeadHost i data) = ''updateDeadHost''"
| "op_name (DeleteDeadHost i) = ''deleteDeadHost''"
| "op_name (EnableDeadHost i) = ''enableDeadHost''"
| "op_name (DisableDeadHost i) = ''disableDeadHost''"
| "op_name ListAccessLists = ''listAccessLists''"
| "op_name (GetAccessList i) = ''getAccessList''"
| "op_name (CreateAccessList data) = ''createAccessList''"
| "op_name (UpdateAccessList i data) = ''updateAccessList''"
| "op_name (DeleteAccessList i) = ''deleteAccessList''"
| "op_name ListUsers = ''listUsers''"
| "op_name (GetUser i) = ''getUser''"
| "op_name GetHealth = ''getHealth''"

text \<open>
  The mutating operations are the \<^verbatim>\<open>create\<close>, \<^verbatim>\<open>update\<close>, \<^verbatim>\<open>delete\<close>, \<^verbatim>\<open>enable\<close>,
  \<^verbatim>\<open>disable\<close> and \<^verbatim>\<open>renew\<close> methods; the others (\<^verbatim>\<open>list\<close>, \<^verbatim>\<open>get\<close>, \<^verbatim>\<open>getHealth\<close>) read.
\<close>

fun mutating :: "operation \<Rightarrow> bool" where
  "mutating ListProxyHosts = False"
| "mutating (GetProxyHost i) = False"
| "mutating (CreateProxyHost data) = True"
| "mutating (UpdateProxyHost i data) = True"
| "mutating (DeleteProxyHost i) = True"
| "mutating (EnableProxyHost i) = True"
| "mutating (DisableProxyHost i) = True"
| "mutating ListCertificates = False"
| "mutating (GetCertificate i) = False"
| "mutating (DeleteCertificate i) = True"
| "mutating (RenewCertificate i) = True"
| "mutating ListStreams = False"
| "mutating (GetStream i) = False"
| "mutating (CreateStream data) = True"
| "mutating (UpdateStream i data) = True"
| "mutating (DeleteStream i) = True"
| "mutating (EnableStream i) = True"
| "mutating (DisableStream i) = True"
| "mutating ListRedirectionHosts = False"
| "mutating (GetRedirectionHost i) = False"
| "mutating (CreateRedirectionHost data) = True"
| "mutating (UpdateRedirectionHost i data) = True"
| "mutating (DeleteRedirectionHost i) = True"
| "mutating (EnableRedirectionHost i) = True"
| "mutating (DisableRedirectionHost i) = True"
| "mutating ListDeadHosts = False"
| "mutating (GetDeadHost i) = False"
| "mutating (CreateDeadHost data) = True"
| "mutating (UpdateDeadHost i data) = True"
| "mutating (DeleteDeadHost i) = True"
| "mutating (EnableDeadHost i) = True"
| "mutating (DisableDeadHost i) = True"
| "mutating ListAccessLists = False"
| "mutating (GetAccessList i) = False"
| "mutating (CreateAccessList data) = True"
| "mutating (UpdateAccessList i data) = True"
| "mutating (DeleteAccessList i) = True"
| "mutating ListUsers = False"
| "mutating (GetUser i) = False"
| "mutating GetHealth = False"

fun deleting :: "operation \<Rightarrow> bool" where
  "deleting ListProxyHosts = False"
| "deleting (GetProxyHost i) = False"
| "deleting (CreateProxyHost data) = False"
| "deleting (UpdateProxyHost i data) = False"
| "deleting (DeleteProxyHost i) = True"
| "deleting (EnableProxyHost i) = False"
| "deleting (DisableProxyHost i) = False"
| "deleting ListCertificates = False"
| "deleting (GetCertificate i) = False"
| "deleting (DeleteCertificate i) = True"
| "deleting (RenewCertificate i) = False"
| "deleting ListStreams = False"
| "deleting (GetStream i) = False"
| "deleting (CreateStream data) = False"
| "deleting (UpdateStream i data) = False"
| "deleting (DeleteStream i) = True"
| "deleting (EnableStream i) = False"
| "deleting (DisableStream i) = False"
| "deleting ListRedirectionHosts = False"
| "deleting (GetRedirectionHost i) = False"
| "deleting (CreateRedirectionHost data) = False"
| "deleting (UpdateRedirectionHost i data) = False"
| "deleting (DeleteRedirectionHost i) = True"
| "deleting (EnableRedirectionHost i) = False"
| "deleting (DisableRedirectionHost i) = False"
| "deleting ListDeadHosts = False"
| "deleting (GetDeadHost i) = False"
| "deleting (CreateDeadHost data) = False"
| "deleting (UpdateDeadHost i data) = False"
| "deleting (DeleteDeadHost i) = True"
| "deleting (EnableDeadHost i) = False"
| "deleting (DisableDeadHost i) = False"
| "deleting ListAccessLists = False"
| "deleting (GetAccessList i) = False"
| "deleting (CreateAccessList data) = False"
| "deleting (UpdateAccessList i data) = False"
| "deleting (DeleteAccessList i) = True"
| "deleting ListUsers = False"
| "deleting (GetUser i) = False"
| "deleting GetHealth = False"

text \<open>
  The arguments with which a method calls \<^verbatim>\<open>request\<close>: the HTTP verb, the path and the
  body. \<^verbatim>\<open>getHealth\<close> does not call \<^verbatim>\<open>request\<close>; its entry is the verb and the path of
  its own call of \<^verbatim>\<open>fetch\<close>.
\<close>

fun op_method :: "operation \<Rightarrow> string" where
  "op_method ListProxyHosts = ''GET''"
| "op_method (GetProxyHost i) = ''GET''"
| "op_method (CreateProxyHost data) = ''POST''"
| "op_method (UpdateProxyHost i data) = ''PUT''"
| "op_method (DeleteProxyHost i) = ''DELETE''"
| "op_method (EnableProxyHost i) = ''POST''"
| "op_method (DisableProxyHost i) = ''POST''"
| "op_method ListCertificates = ''GET''"
| "op_method (GetCertificate i) = ''GET''"
| "op_method (DeleteCertificate i) = ''DELETE''"
| "op_method (RenewCertificate i) = ''POST''"
| "op_method ListStreams = ''GET''"
| "op_method (GetStream i) = ''GET''"
| "op_method (CreateStream data) = ''POST''"
| "op_method (UpdateStream i data) = ''PUT''"
| "op_method (DeleteStream i) = ''DELETE''"
| "op_method (EnableStream i) = ''POST''"
| "op_method (DisableStream i) = ''POST''"
| "op_method ListRedirectionHosts = ''GET''"
| "op_method (GetRedirectionHost i) = ''GET''"
| "op_method (CreateRedirectionHost data) = ''POST''"
| "op_method (UpdateRedirectionHost i data) = ''PUT''"
| "op_method (DeleteRedirectionHost i) = ''DELETE''"
| "op_method (EnableRedirectionHost i) = ''POST''"
| "op_method (DisableRedirectionHost i) = ''POST''"
| "op_method ListDeadHosts = ''GET''"
| "op_method (GetDeadHost i) = ''GET''"
| "op_method (CreateDeadHost data) = ''POST''"
| "op_method (UpdateDeadHost i data) = ''PUT''"
| "op_method (DeleteDeadHost i) = ''DELETE''"
| "op_method (EnableDeadHost i) = ''POST''"
| "op_method (DisableDeadHost i) = ''POST''"
| "op_method ListAccessLists = ''GET''"
| "op_method (GetAccessList i) = ''GET''"
| "op_method (CreateAccessList data) = ''POST''"
| "op_method (UpdateAccessList i data) = ''PUT''"
| "op_method (DeleteAccessList i) = ''DELETE''"
| "op_method ListUsers = ''GET''"
| "op_method (GetUser i) = ''GET''"
| "op_method GetHealth = ''GET''"

fun op_path :: "operation \<Rightarrow> string" where
  "op_path ListProxyHosts = ''/nginx/proxy-hosts''"
| "op_path (GetProxyHost i) = ''/nginx/proxy-hosts/'' @ show_int i"
| "op_path (CreateProxyHost data) = ''/nginx/proxy-hosts''"
| "op_path (UpdateProxyHost i data) = ''/nginx/proxy-hosts/'' @ show_int i"
| "op_path (DeleteProxyHost i) = ''/nginx/proxy-hosts/'' @ show_int i"
| "op_path (EnableProxyHost i) = ''/nginx/proxy-hosts/'' @ show_int i @ ''/enable''"
| "op_path (DisableProxyHost i) = ''/nginx/proxy-hosts/'' @ show_int i @ ''/disable''"
| "op_path ListCertificates = ''/nginx/certificates''"
| "op_path (GetCertificate i) = ''/nginx/certificates/'' @ show_int i"
| "op_path (DeleteCertificate i) = ''/nginx/certificates/'' @ show_int i"
| "op_path (RenewCertificate i) = ''/nginx/certificates/'' @ show_int i @ ''/renew''"
| "op_path ListStreams = ''/nginx/streams''"
| "op_path (GetStream i) = ''/nginx/streams/'' @ show_int i"
| "op_path (CreateStream data) = ''/nginx/streams''"
| "op_path (UpdateStream i data) = ''/nginx/streams/'' @ show_int i"
| "op_path (DeleteStream i) = ''/nginx/streams/'' @ show_int i"
| "op_path (EnableStream i) = ''/nginx/streams/'' @ show_int i @ ''/enable''"
| "op_path (DisableStream i) = ''/nginx/streams/'' @ show_int i @ ''/disable''"
| "op_path ListRedirectionHosts = ''/nginx/redirection-hosts''"
| "op_path (GetRedirectionHost i) = ''/nginx/redirection-hosts/'' @ show_int i"
| "op_path (CreateRedirectionHost data) = ''/nginx/redirection-hosts''"
| "op_path (UpdateRedirectionHost i data) = ''/nginx/redirection-hosts/'' @ show_int i"
| "op_path (DeleteRedirectionHost i) = ''/nginx/redirection-hosts/'' @ show_int i"
| "op_path (EnableRedirectionHost i) = ''/nginx/redirection-hosts/'' @ show_int i @ ''/enable''"
| "op_path (DisableRedirectionHost i) = ''/nginx/redirection-hosts/'' @ show_int i @ ''/disable''"
| "op_path ListDeadHosts = ''/nginx/dead-hosts''"
| "op_path (GetDeadHost i) = ''/nginx/dead-hosts/'' @ show_int i"
| "op_path (CreateDeadHost data) = ''/nginx/dead-hosts''"
| "op_path (UpdateDeadHost i data) = ''/nginx/dead-hosts/'' @ show_int i"
| "op_path (DeleteDeadHost i) = ''/nginx/dead-hosts/'' @ show_int i"
| "op_path (EnableDeadHost i) = ''/nginx/dead-hosts/'' @ show_int i @ ''/enable''"
| "op_path (DisableDeadHost i) = ''/nginx/dead-hosts/'' @ show_int i @ ''/disable''"
| "op_path ListAccessLists = ''/nginx/access-lists''"
| "op_path (GetAccessList i) = ''/nginx/access-lists/'' @ show_int i"
| "op_path (CreateAccessList data) = ''/nginx/access-lists''"
| "op_path (UpdateAccessList i data) = ''/nginx/access-lists/'' @ show_int i"
| "op_path (DeleteAccessList i) = ''/nginx/access-lists/'' @ show_int i"
| "op_path ListUsers = ''/users''"
| "op_path (GetUser i) = ''/users/'' @ show_int i"
| "op_path GetHealth = ''/''"

fun op_body :: "operation \<Rightarrow> jsvalue" where
  "op_body ListProxyHosts = Undefined"
| "op_body (GetProxyHost i) = Undefined"
| "op_body (CreateProxyHost data) = data"
| "op_body (UpdateProxyHost i data) = data"
| "op_body (DeleteProxyHost i) = Undefined"
| "op_body (EnableProxyHost i) = Undefined"
| "op_body (DisableProxyHost i) = Undefined"
| "op_body ListCertificates = Undefined"
| "op_body (GetCertificate i) = Undefined"
| "op_body (DeleteCertificate i) = Undefined"
| "op_body (RenewCertificate i) = Undefined"
| "op_body ListStreams = Undefined"
| "op_body (GetStream i) = Undefined"
| "op_body (CreateStream data) = data"
| "op_body (UpdateStream i data) = data"
| "op_body (DeleteStream i) = Undefined"
| "op_body (EnableStream i) = Undefined"
| "op_body (DisableStream i) = Undefined"
| "op_body ListRedirectionHosts = Undefined"
| "op_body (GetRedirectionHost i) = Undefined"
| "op_body (CreateRedirectionHost data) = data"
| "op_body (UpdateRedirectionHost i data) = data"
| "op_body (DeleteRedirectionHost i) = Undefined"
| "op_body (EnableRedirectionHost i) = Undefined"
| "op_body (DisableRedirectionHost i) = Undefined"
| "op_body ListDeadHosts = Undefined"
| "op_body (GetDeadHost i) = Undefined"
| "op_body (CreateDeadHost data) = data"
| "op_body (UpdateDeadHost i data) = data"
| "op_body (DeleteDeadHost i) = Undefined"
| "op_body (EnableDeadHost i) = Undefined"
| "op_body (DisableDeadHost i) = Undefined"
| "op_body ListAccessLists = Undefined"
| "op_body (GetAccessList i) = Undefined"
| "op_body (CreateAccessList data) = data"
| "op_body (UpdateAccessList i data) = data"
| "op_body (DeleteAccessList i) = Undefined"
| "op_body ListUsers = Undefined"
| "op_body (GetUser i) = Undefined"
| "op_body GetHealth = Undefined"

section \<open>Start-up and the command-line dispatcher\<close>

subsection \<open>Configuration from the environment\<close>

text \<open>\<^verbatim>\<open>process.env\<close>: a variable is a string or is absent.\<close>

type_synonym environment = "string \<rightharpoonup> string"

text \<open>\<^verbatim>\<open>v || d\<close> on a string that may be \<^verbatim>\<open>undefined\<close>: absent and empty both give \<open>d\<close>.\<close>

definition string_or :: "string option \<Rightarrow> string \<Rightarrow> string" where
  "string_or v d = (case v of None \<Rightarrow> d | Some s \<Rightarrow> if s = [] then d else s)"

text \<open>Lines 5 to 20 of \<^verbatim>\<open>cli.ts\<close>. \<open>Inl\<close> is the line written before \<^verbatim>\<open>process.exit(1)\<close>.\<close>

definition cli_config :: "environment \<Rightarrow> NpmConfig" where
  "cli_config env =
     \<lparr>baseUrl = string_or (env ''NPM_URL'') ''http://localhost:81'',
      email = string_or (env ''NPM_EMAIL'') [],
      password = string_or (env ''NPM_PASSWORD'') [],
      readonly = Some (env ''NPM_READONLY'' = Some ''true'')\<rparr>"

definition cli_startup :: "environment \<Rightarrow> string + client" where
  "cli_startup env =
     (if email (cli_config env) = [] \<or> password (cli_config env) = []
      then Inl ''Error: NPM_EMAIL and NPM_PASSWORD environment variables are required''
      else Inr (NpmApiClient (cli_config env)))"

text \<open>
  Lines 9 to 26 of \<^verbatim>\<open>index.ts\<close>, the tool server: the same code. (In readonly mode the
  server also writes a notice to standard error, which is not modelled.)
\<close>

definition server_config :: "environment \<Rightarrow> NpmConfig" where
  "server_config env =
     \<lparr>baseUrl = string_or (env ''NPM_URL'') ''http://localhost:81'',
      email = string_or (env ''NPM_EMAIL'') [],
      password = string_or (env ''NPM_PASSWORD'') [],
      readonly = Some (env ''NPM_READONLY'' = Some ''true'')\<rparr>"

definition server_startup :: "environment \<Rightarrow> string + client" where
  "server_startup env =
     (if email (server_config env) = [] \<or> password (server_config env) = []
      then Inl ''Error: NPM_EMAIL and NPM_PASSWORD environment variables are required''
      else Inr (NpmApiClient (server_config env)))"

subsection \<open>Arguments and options\<close>

text \<open>\<^verbatim>\<open>args[n]\<close>: \<^verbatim>\<open>undefined\<close> beyond the end.\<close>

definition arg :: "string list \<Rightarrow> nat \<Rightarrow> string option" where
  "arg args n = (if n < length args then Some (args ! n) else None)"

text \<open>
  \<^verbatim>\<open>parseInt(v)\<close> on a string that may be \<^verbatim>\<open>undefined\<close>: \<^verbatim>\<open>parseInt(undefined)\<close> is
  \<^verbatim>\<open>NaN\<close>. On a string the result is the runtime's.
\<close>

definition parse_int :: "runtime \<Rightarrow> string option \<Rightarrow> number" where
  "parse_int rt v = (case v of None \<Rightarrow> NaN | Some s \<Rightarrow> parseInt rt s)"

text \<open>\<^verbatim>\<open>n || d\<close> on a number: \<^verbatim>\<open>NaN\<close> and zero both give \<open>d\<close>.\<close>

definition number_or :: "number \<Rightarrow> int \<Rightarrow> number" where
  "number_or n d = (case n of NaN \<Rightarrow> Number d | Number k \<Rightarrow> if k = 0 then Number d else Number k)"

text \<open>
  \<^verbatim>\<open>parseArgs\<close>: the loop over \<open>args\<close>, with the option bag \<open>result\<close> as accumulator. The
  value of a flag is the next argument unless that is absent, empty or a flag itself;
  the index moves past a value different from \<^verbatim>\<open>"true"\<close>. The bag is a map from keys to
  values; the key \<^verbatim>\<open>__proto__\<close>, whose assignment JavaScript ignores, is not among the
  keys that \<^verbatim>\<open>main\<close> reads.
\<close>

fun parseArgs_loop :: "string list \<Rightarrow> (string \<rightharpoonup> string) \<Rightarrow> (string \<rightharpoonup> string)" where
  "parseArgs_loop [] result = result"
| "parseArgs_loop [a] result =
     (if prefix ''--'' a then result(drop 2 a \<mapsto> ''true'') else result)"
| "parseArgs_loop (a # b # rest) result =
     (if prefix ''--'' a
      then (let key = drop 2 a;
                val = (if b \<noteq> [] \<and> \<not> prefix ''--'' b then b else ''true'')
            in if val \<noteq> ''true''
               then parseArgs_loop rest (result(key \<mapsto> val))
               else parseArgs_loop (b # rest) (result(key \<mapsto> val)))
      else parseArgs_loop (b # rest) result)"

definition parseArgs :: "string list \<Rightarrow> (string \<rightharpoonup> string)" where
  "parseArgs args = parseArgs_loop args Map.empty"

text \<open>\<^verbatim>\<open>s.split(",")\<close>.\<close>

fun split_on :: "char \<Rightarrow> string \<Rightarrow> string list" where
  "split_on sep [] = [[]]"
| "split_on sep (x # xs) =
     (if x = sep then [] # split_on sep xs
      else (case split_on sep xs of
              [] \<Rightarrow> [[x]]
            | w # ws \<Rightarrow> (x # w) # ws))"

text \<open>\<^verbatim>\<open>opts.domains?.split(",") || []\<close>.\<close>

definition domains_of :: "(string \<rightharpoonup> string) \<Rightarrow> jsvalue" where
  "domains_of opts =
     Array (map String (case opts ''domains'' of None \<Rightarrow> [] | Some d \<Rightarrow> split_on CHR '','' d))"

text \<open>The input objects that the \<^verbatim>\<open>create\<close> subcommands build, property by property.\<close>

definition proxy_host_input :: "runtime \<Rightarrow> (string \<rightharpoonup> string) \<Rightarrow> jsvalue" where
  "proxy_host_input rt opts =
     Object
       [(''domain_names'', domains_of opts),
        (''forward_host'', String (string_or (opts ''forward-host'') [])),
        (''forward_port'', Num (number_or (parse_int rt (opts ''forward-port'')) 80)),
        (''forward_scheme'', String (string_or (opts ''forward-scheme'') ''http'')),
        (''ssl_forced'', Bool (opts ''ssl-forced'' = Some ''true'')),
        (''allow_websocket_upgrade'', Bool (opts ''websocket'' = Some ''true'')),
        (''block_exploits'', Bool (opts ''block-exploits'' = Some ''true'')),
        (''caching_enabled'', Bool (opts ''caching'' = Some ''true'')),
        (''http2_support'', Bool (opts ''http2'' = Some ''true'')),
        (''certificate_id'',
           (case opts ''certificate-id'' of
              None \<Rightarrow> Undefined
            | Some s \<Rightarrow> if s = [] then Undefined else Num (parseInt rt s)))]"

definition stream_input :: "runtime \<Rightarrow> (string \<rightharpoonup> string) \<Rightarrow> jsvalue" where
  "stream_input rt opts =
     Object
       [(''incoming_port'', Num (number_or (parse_int rt (opts ''incoming-port'')) 0)),
        (''forwarding_host'', String (string_or (opts ''forward-host'') [])),
        (''forwarding_port'', Num (number_or (parse_int rt (opts ''forward-port'')) 0)),
        (''tcp_forwarding'', Bool (opts ''tcp'' \<noteq> Some ''false'')),
        (''udp_forwarding'', Bool (opts ''udp'' = Some ''true''))]"

definition redirection_input :: "runtime \<Rightarrow> (string \<rightharpoonup> string) \<Rightarrow> jsvalue" where
  "redirection_input rt opts =
     Object
       [(''domain_names'', domains_of opts),
        (''forward_scheme'', String (string_or (opts ''forward-scheme'') ''$scheme'')),
        (''forward_domain_name'', String (string_or (opts ''forward-domain'') [])),
        (''forward_http_code'', Num (number_or (parse_int rt (opts ''http-code'')) 301)),
        (''preserve_path'', Bool (opts ''preserve-path'' \<noteq> Some ''false''))]"

definition access_list_input :: "(string \<rightharpoonup> string) \<Rightarrow> jsvalue" where
  "access_list_input opts =
     Object [(''name'', String (string_or (opts ''name'') ''New Access List''))]"

definition dead_host_input :: "(string \<rightharpoonup> string) \<Rightarrow> jsvalue" where
  "dead_host_input opts = Object [(''domain_names'', domains_of opts)]"

subsection \<open>The dispatch of \<^verbatim>\<open>main\<close>\<close>

text \<open>
  What a branch of the \<^verbatim>\<open>switch\<close> does: it awaits one client method and reports the
  result, or throws before any call, or writes a usage line to standard error, or
  writes the help text to standard output.
\<close>

datatype report = Print | Log string | PrintStatus

datatype action =
    Call operation report
  | Throw error
  | Usage string
  | Help

text \<open>
  \<^verbatim>\<open>const id = parseInt(args[2]); if (isNaN(id)) throw new Error("Invalid ID");\<close>
  followed by the rest of the branch.
\<close>

definition with_id :: "runtime \<Rightarrow> string list \<Rightarrow> (int \<Rightarrow> action) \<Rightarrow> action" where
  "with_id rt args k =
     (case parse_int rt (arg args 2) of
        NaN \<Rightarrow> Throw (Error ''Invalid ID'')
      | Number i \<Rightarrow> k i)"

definition proxy_hosts :: "runtime \<Rightarrow> string list \<Rightarrow> action" where
  "proxy_hosts rt args =
     (let subcommand = arg args 1 in
      if subcommand = Some ''list'' then Call ListProxyHosts Print
      else if subcommand = Some ''get'' then
        with_id rt args (\<lambda>i. Call (GetProxyHost i) Print)
      else if subcommand = Some ''create'' then
        Call (CreateProxyHost (proxy_host_input rt (parseArgs (drop 2 args)))) Print
      else if subcommand = Some ''delete'' then
        with_id rt args (\<lambda>i. Call (DeleteProxyHost i) (Log (''Proxy host '' @ show_int i @ '' deleted'')))
      else if subcommand = Some ''enable'' then
        with_id rt args (\<lambda>i. Call (EnableProxyHost i) (Log (''Proxy host '' @ show_int i @ '' enabled'')))
      else if subcommand = Some ''disable'' then
        with_id rt args (\<lambda>i. Call (DisableProxyHost i) (Log (''Proxy host '' @ show_int i @ '' disabled'')))
      else Usage ''Usage: proxy-hosts [list|get|create|delete|enable|disable]'')"

definition streams :: "runtime \<Rightarrow> string list \<Rightarrow> action" where
  "streams rt args =
     (let subcommand = arg args 1 in
      if subcommand = Some ''list'' then Call ListStreams Print
      else if subcommand = Some ''get'' then
        with_id rt args (\<lambda>i. Call (GetStream i) Print)
      else if subcommand = Some ''create'' then
        Call (CreateStream (stream_input rt (parseArgs (drop 2 args)))) Print
      else if subcommand = Some ''delete'' then
        with_id rt args (\<lambda>i. Call (DeleteStream i) (Log (''Stream '' @ show_int i @ '' deleted'')))
      else if subcommand = Some ''enable'' then
        with_id rt args (\<lambda>i. Call (EnableStream i) (Log (''Stream '' @ show_int i @ '' enabled'')))
      else if subcommand = Some ''disable'' then
        with_id rt args (\<lambda>i. Call (DisableStream i) (Log (''Stream '' @ show_int i @ '' disabled'')))
      else Usage ''Usage: streams [list|get|create|delete|enable|disable]'')"

definition certificates :: "runtime \<Rightarrow> string list \<Rightarrow> action" where
  "certificates rt args =
     (let subcommand = arg args 1 in
      if subcommand = Some ''list'' then Call ListCertificates Print
      else if subcommand = Some ''get'' then
        with_id rt args (\<lambda>i. Call (GetCertificate i) Print)
      else if subcommand = Some ''renew'' then
        with_id rt args (\<lambda>i. Call (RenewCertificate i) Print)
      else if subcommand = Some ''delete'' then
        with_id rt args (\<lambda>i. Call (DeleteCertificate i) (Log (''Certificate '' @ show_int i @ '' deleted'')))
      else Usage ''Usage: certificates [list|get|renew|delete]'')"

definition redirections :: "runtime \<Rightarrow> string list \<Rightarrow> action" where
  "redirections rt args =
     (let subcommand = arg args 1 in
      if subcommand = Some ''list'' then Call ListRedirectionHosts Print
      else if subcommand = Some ''get'' then
        with_id rt args (\<lambda>i. Call (GetRedirectionHost i) Print)
      else if subcommand = Some ''create'' then
        Call (CreateRedirectionHost (redirection_input rt (parseArgs (drop 2 args)))) Print
      else if subcommand = Some ''delete'' then
        with_id rt args (\<lambda>i. Call (DeleteRedirectionHost i) (Log (''Redirection host '' @ show_int i @ '' deleted'')))
      else Usage ''Usage: redirections [list|get|create|delete]'')"

definition access_lists :: "runtime \<Rightarrow> string list \<Rightarrow> action" where
  "access_lists rt args =
     (let subcommand = arg args 1 in
      if subcommand = Some ''list'' then Call ListAccessLists Print
      else if subcommand = Some ''get'' then
        with_id rt args (\<lambda>i. Call (GetAccessList i) Print)
      else if subcommand = Some ''create'' then
        Call (CreateAccessList (access_list_input (parseArgs (drop 2 args)))) Print
      else if subcommand = Some ''delete'' then
        with_id rt args (\<lambda>i. Call (DeleteAccessList i) (Log (''Access list '' @ show_int i @ '' deleted'')))
      else Usage ''Usage: access-lists [list|get|create|delete]'')"

definition dead_hosts :: "runtime \<Rightarrow> string list \<Rightarrow> action" where
  "dead_hosts rt args =
     (let subcommand = arg args 1 in
      if subcommand = Some ''list'' then Call ListDeadHosts Print
      else if subcommand = Some ''get'' then
        with_id rt args (\<lambda>i. Call (GetDeadHost i) Print)
      else if subcommand = Some ''create'' then
        Call (CreateDeadHost (dead_host_input (parseArgs (drop 2 args)))) Print
      else if subcommand = Some ''delete'' then
        with_id rt args (\<lambda>i. Call (DeleteDeadHost i) (Log (''Dead host '' @ show_int i @ '' deleted'')))
      else Usage ''Usage: dead-hosts [list|get|create|delete]'')"

definition users :: "runtime \<Rightarrow> string list \<Rightarrow> action" where
  "users rt args =
     (let subcommand = arg args 1 in
      if subcommand = Some ''list'' then Call ListUsers Print
      else if subcommand = Some ''get'' then
        with_id rt args (\<lambda>i. Call (GetUser i) Print)
      else Usage ''Usage: users [list|get]'')"

definition dispatch :: "runtime \<Rightarrow> string list \<Rightarrow> action" where
  "dispatch rt args =
     (let command = arg args 0 in
      if command = Some ''status'' then Call GetHealth PrintStatus
      else if command = Some ''proxy-hosts'' then proxy_hosts rt args
      else if command = Some ''streams'' then streams rt args
      else if command = Some ''certificates'' then certificates rt args
      else if command = Some ''redirections'' then redirections rt args
      else if command = Some ''access-lists'' then access_lists rt args
      else if command = Some ''dead-hosts'' then dead_hosts rt args
      else if command = Some ''users'' then users rt args
      else Help)"

subsection \<open>Running the command line\<close>

text \<open>
  What the process writes: a value printed as JSON, a line on standard output, a line
  on standard error, or the help text (the literal of lines 333 to 381 of \<^verbatim>\<open>cli.ts\<close>).
\<close>

datatype console = Stdout_json jsvalue | Stdout string | Stderr string | Stdout_help

text \<open>
  The end of a run: what was written, the exit code, the client methods that were
  called and the requests that were sent.
\<close>

record finished =
  written :: "console list"
  exit_code :: nat
  calls :: "operation list"
  requests :: "request list"

text \<open>
  \<^verbatim>\<open>{...health, mcp_server: {...}}\<close>: the properties of the health object, with
  \<^verbatim>\<open>mcp_server\<close> set. The declared type of \<^verbatim>\<open>health\<close> is an object; the indexed
  properties that a string or an array would spread are not modelled.
\<close>

fun set_property :: "string \<Rightarrow> jsvalue \<Rightarrow> (string \<times> jsvalue) list \<Rightarrow> (string \<times> jsvalue) list" where
  "set_property k v [] = [(k, v)]"
| "set_property k v ((k', v') # kvs) =
     (if k' = k then (k, v) # kvs else (k', v') # set_property k v kvs)"

definition status_object :: "client \<Rightarrow> jsvalue \<Rightarrow> jsvalue" where
  "status_object c health =
     Object (set_property ''mcp_server''
               (Object [(''readonly'', Bool (isReadonly c)),
                        (''mode'', String (if isReadonly c then ''readonly'' else ''read-write''))])
               (case health of Object kvs \<Rightarrow> kvs | _ \<Rightarrow> []))"

definition render :: "report \<Rightarrow> client \<Rightarrow> jsvalue \<Rightarrow> console" where
  "render rep c v =
     (case rep of
        Print \<Rightarrow> Stdout_json v
      | Log line \<Rightarrow> Stdout line
      | PrintStatus \<Rightarrow> Stdout_json (status_object c v))"

text \<open>
  \<^verbatim>\<open>main\<close>: the \<^verbatim>\<open>try\<close> block runs the branch; the \<^verbatim>\<open>catch\<close> block writes
  \<^verbatim>\<open>"Error:"\<close> and the message, and exits with code 1. Without an error the process ends
  with code 0.
\<close>

definition main :: "runtime \<Rightarrow> int \<Rightarrow> client \<Rightarrow> string list \<Rightarrow> finished" where
  "main rt now c args =
     (case dispatch rt args of
        Call op rep \<Rightarrow>
          (case perform rt now c op of
             (Inl e, c', rs) \<Rightarrow>
               \<lparr>written = [Stderr (''Error: '' @ message e)], exit_code = 1,
                calls = [op], requests = rs\<rparr>
           | (Inr v, c', rs) \<Rightarrow>
               \<lparr>written = [render rep c' v], exit_code = 0, calls = [op], requests = rs\<rparr>)
      | Throw e \<Rightarrow>
          \<lparr>written = [Stderr (''Error: '' @ message e)], exit_code = 1,
           calls = [], requests = []\<rparr>
      | Usage line \<Rightarrow>
          \<lparr>written = [Stderr line], exit_code = 0, calls = [], requests = []\<rparr>
      | Help \<Rightarrow>
          \<lparr>written = [Stdout_help], exit_code = 0, calls = [], requests = []\<rparr>)"

text \<open>
  The whole of \<^verbatim>\<open>cli.ts\<close>: \<open>args\<close> is \<^verbatim>\<open>process.argv.slice(2)\<close>. Without credentials the
  process exits before a client exists.
\<close>

definition cli :: "runtime \<Rightarrow> int \<Rightarrow> environment \<Rightarrow> string list \<Rightarrow> finished" where
  "cli rt now env args =
     (case cli_startup env of
        Inl line \<Rightarrow> \<lparr>written = [Stderr line], exit_code = 1, calls = [], requests = []\<rparr>
      | Inr c \<Rightarrow> main rt now c args)"

section \<open>Notions used in the statements\<close>

text \<open>\<^verbatim>\<open>v[k]\<close> on an object: the value of the property, \<^verbatim>\<open>undefined\<close> without it.\<close>

fun property :: "jsvalue \<Rightarrow> string \<Rightarrow> jsvalue" where
  "property (Object kvs) k = (case map_of kvs k of None \<Rightarrow> Undefined | Some v \<Rightarrow> v)"
| "property v k = Undefined"

text \<open>
  The token acquisition of a client is the \<^verbatim>\<open>POST\<close> to \<^verbatim>\<open>${baseUrl}/api/tokens\<close>.
\<close>

definition is_token_request :: "client \<Rightarrow> request \<Rightarrow> bool" where
  "is_token_request c r = (http_method r = ''POST'' \<and> url r = c_baseUrl c @ ''/api/tokens'')"

text \<open>
  A history of a client: method calls one after the other, each with the runtime and the
  clock reading it meets. \<open>run\<close> gives the fields of the client at the end.
\<close>

fun run :: "client \<Rightarrow> (runtime \<times> int \<times> operation) list \<Rightarrow> client" where
  "run c [] = c"
| "run c ((rt, now, op) # steps) = run (after (perform rt now c op)) steps"

text \<open>
  The branches of \<^verbatim>\<open>main\<close> that read \<^verbatim>\<open>args[2]\<close> as an id, as pairs of command and
  subcommand, and the commands that have a \<^verbatim>\<open>create\<close> branch.
\<close>

definition id_subcommands :: "(string \<times> string) list" where
  "id_subcommands =
     [(''proxy-hosts'', ''get''), (''proxy-hosts'', ''delete''),
      (''proxy-hosts'', ''enable''), (''proxy-hosts'', ''disable''),
      (''streams'', ''get''), (''streams'', ''delete''),
      (''streams'', ''enable''), (''streams'', ''disable''),
      (''certificates'', ''get''), (''certificates'', ''renew''), (''certificates'', ''delete''),
      (''redirections'', ''get''), (''redirections'', ''delete''),
      (''access-lists'', ''get''), (''access-lists'', ''delete''),
      (''dead-hosts'', ''get''), (''dead-hosts'', ''delete''),
      (''users'', ''get'')]"

definition create_commands :: "string list" where
  "create_commands =
     [''proxy-hosts'', ''streams'', ''redirections'', ''access-lists'', ''dead-hosts'']"

fun creating :: "operation \<Rightarrow> bool" where
  "creating (CreateProxyHost data) = True"
| "creating (CreateStream data) = True"
| "creating (CreateRedirectionHost data) = True"
| "creating (CreateAccessList data) = True"
| "creating (CreateDeadHost data) = True"
| "creating op = False"

section \<open>An example runtime\<close>

text \<open>
  Concrete inputs for the examples below. \<open>parseInt_ascii\<close> follows the definition of
  \<^verbatim>\<open>parseInt\<close> without a radix on ASCII text: leading white space is skipped, a sign is
  read, a prefix \<^verbatim>\<open>0x\<close> selects base 16, and the longest run of digits is the value;
  without a digit the result is \<^verbatim>\<open>NaN\<close>.
\<close>

definition white_space :: "char \<Rightarrow> bool" where
  "white_space ch = (ch \<in> set [CHR 0x09, CHR 0x0A, CHR 0x0B, CHR 0x0C, CHR 0x0D, CHR 0x20])"

definition digit_value :: "char \<Rightarrow> nat option" where
  "digit_value ch =
     (let n = (of_char ch :: nat) in
      if 48 \<le> n \<and> n \<le> 57 then Some (n - 48)
      else if 97 \<le> n \<and> n \<le> 122 then Some (n - 87)
      else if 65 \<le> n \<and> n \<le> 90 then Some (n - 55)
      else None)"

definition in_radix :: "nat \<Rightarrow> char \<Rightarrow> bool" where
  "in_radix r ch = (case digit_value ch of None \<Rightarrow> False | Some d \<Rightarrow> d < r)"

definition parseInt_ascii :: "string \<Rightarrow> number" where
  "parseInt_ascii s =
     (let s1 = dropWhile white_space s;
          negative = prefix ''-'' s1;
          s2 = (if prefix ''+'' s1 \<or> prefix ''-'' s1 then drop 1 s1 else s1);
          hex = (prefix ''0x'' s2 \<or> prefix ''0X'' s2);
          s3 = (if hex then drop 2 s2 else s2);
          radix = (if hex then 16 else 10);
          ds = takeWhile (in_radix radix) s3;
          n = foldl (\<lambda>a ch. a * radix + (case digit_value ch of None \<Rightarrow> 0 | Some d \<Rightarrow> d)) 0 ds
      in if ds = [] then NaN
         else Number (if negative then - int n else int n))"

text \<open>
  A remote service at \<^verbatim>\<open>http://npm.local:81\<close> that answers the token endpoint with
  \<open>token_answer\<close> and every other request with \<open>answer\<close>; the body of a token answer
  decodes to \<open>tok\<close>.
\<close>

definition example_runtime :: "response \<Rightarrow> response \<Rightarrow> TokenResponse \<Rightarrow> runtime" where
  "example_runtime token_answer answer tok =
     \<lparr>fetch = (\<lambda>r. if http_method r = ''POST'' \<and> url r = ''http://npm.local:81/api/tokens''
                    then Inr token_answer else Inr answer),
      json = (\<lambda>s. if s = ''[]'' then Inr (Array [])
                   else Inl \<lparr>name = ''SyntaxError'', message = ''Unexpected end of JSON input''\<rparr>),
      json_token = (\<lambda>s. if s = ''{...}'' then Inr tok
                         else Inl \<lparr>name = ''SyntaxError'', message = ''Unexpected end of JSON input''\<rparr>),
      Date = (\<lambda>s. if s = ''1970-01-01T00:00:01.000Z'' then Some 1000 else None),
      parseInt = parseInt_ascii\<rparr>"

definition example_config :: "bool \<Rightarrow> NpmConfig" where
  "example_config ro =
     \<lparr>baseUrl = ''http://npm.local:81/'', email = ''admin@example.com'',
      password = ''changeme'', readonly = Some ro\<rparr>"

definition example_environment :: "string \<Rightarrow> environment" where
  "example_environment ro =
     [''NPM_URL'' \<mapsto> ''http://npm.local:81'', ''NPM_EMAIL'' \<mapsto> ''admin@example.com'',
      ''NPM_PASSWORD'' \<mapsto> ''changeme'', ''NPM_READONLY'' \<mapsto> ro]"

definition good_token :: TokenResponse where
  "good_token = \<lparr>token = ''eyJhbGciOi'', expires = ''1970-01-01T00:00:01.000Z''\<rparr>"

definition empty_token :: TokenResponse where
  "empty_token = \<lparr>token = [], expires = ''1970-01-01T00:00:01.000Z''\<rparr>"

definition answer_200 :: "string \<Rightarrow> response" where
  "answer_200 s = \<lparr>status = 200, response_text = s\<rparr>"

definition answer_204 :: response where
  "answer_204 = \<lparr>status = 204, response_text = []\<rparr>"

definition answer_500 :: response where
  "answer_500 = \<lparr>status = 500, response_text = ''boom''\<rparr>"

text \<open>Clients and runtimes of the examples.\<close>

definition fresh_client :: client where
  "fresh_client = NpmApiClient (example_config False)"

definition readonly_client :: client where
  "readonly_client = NpmApiClient (example_config True)"

definition signed_in_client :: client where
  "signed_in_client =
     fresh_client\<lparr>c_token := Some ''eyJhbGciOi'', c_tokenExpires := Some (Some 1000)\<rparr>"

definition empty_token_client :: client where
  "empty_token_client = fresh_client\<lparr>c_token := Some [], c_tokenExpires := Some (Some 1000)\<rparr>"

definition good_runtime :: runtime where
  "good_runtime = example_runtime (answer_200 ''{...}'') (answer_200 ''[]'') good_token"

definition empty_token_runtime :: runtime where
  "empty_token_runtime = example_runtime (answer_200 ''{...}'') (answer_200 ''[]'') empty_token"

definition no_content_runtime :: runtime where
  "no_content_runtime = example_runtime (answer_200 ''{...}'') answer_204 good_token"

definition failing_runtime :: runtime where
  "failing_runtime = example_runtime (answer_200 ''{...}'') answer_500 good_token"

definition auth_failing_runtime :: runtime where
  "auth_failing_runtime = example_runtime answer_500 (answer_200 ''[]'') good_token"

definition unhealthy_runtime :: runtime where
  "unhealthy_runtime =
     example_runtime (answer_200 ''{...}'') \<lparr>status = 500, response_text = ''[]''\<rparr> good_token"

section \<open>Basic facts\<close>

lemmas method_defs =
  listProxyHosts_def getProxyHost_def createProxyHost_def updateProxyHost_def
  deleteProxyHost_def enableProxyHost_def disableProxyHost_def listCertificates_def
  getCertificate_def deleteCertificate_def renewCertificate_def listStreams_def
  getStream_def createStream_def updateStream_def deleteStream_def
  enableStream_def disableStream_def listRedirectionHosts_def getRedirectionHost_def
  createRedirectionHost_def updateRedirectionHost_def deleteRedirectionHost_def enableRedirectionHost_def
  disableRedirectionHost_def listDeadHosts_def getDeadHost_def createDeadHost_def
  updateDeadHost_def deleteDeadHost_def enableDeadHost_def disableDeadHost_def
  listAccessLists_def getAccessList_def createAccessList_def updateAccessList_def
  deleteAccessList_def listUsers_def getUser_def getHealth_def

lemma ensureToken_sent:
  "sent (ensureToken rt now c) = (if cached_token now c = None then [token_request c] else [])"
  by (simp add: ensureToken_def sent_def split: option.splits sum.splits)

lemma ensureToken_frame:
  "c_baseUrl (after (ensureToken rt now c)) = c_baseUrl c"
  "c_email (after (ensureToken rt now c)) = c_email c"
  "c_password (after (ensureToken rt now c)) = c_password c"
  "c_readonly (after (ensureToken rt now c)) = c_readonly c"
  by (simp_all add: ensureToken_def after_def split: option.splits sum.splits)

lemma api_request_after:
  "api_request (after (ensureToken rt now c)) tok m p d = api_request c tok m p d"
  by (simp add: api_request_def ensureToken_frame)

lemma request_sent:
  "sent (request rt now c m p d) =
     sent (ensureToken rt now c) @
     (case settled (ensureToken rt now c) of
        Inl e \<Rightarrow> []
      | Inr tok \<Rightarrow> [api_request c tok m p d])"
proof (cases "ensureToken rt now c")
  case (fields res c' rs)
  have "api_request c' = api_request c"
    using ensureToken_frame(1)[of rt now c] fields
    by (auto simp add: api_request_def after_def fun_eq_iff)
  with fields show ?thesis
    by (cases res) (simp_all add: request_def sent_def settled_def split: sum.splits)
qed

lemma request_after:
  "after (request rt now c m p d) = after (ensureToken rt now c)"
  by (cases "ensureToken rt now c")
     (auto simp add: request_def after_def split: sum.splits prod.splits)

lemma request_settled:
  "settled (request rt now c m p d) =
     (case settled (ensureToken rt now c) of
        Inl e \<Rightarrow> Inl e
      | Inr tok \<Rightarrow>
          (case fetch rt (api_request c tok m p d) of
             Inl e \<Rightarrow> Inl e
           | Inr response \<Rightarrow>
               if \<not> ok response
               then Inl (Error (''API request failed: '' @ digits (status response)
                                @ '' - '' @ response_text response))
               else if status response = 204 then Inr (Object [])
               else json rt (response_text response)))"
proof (cases "ensureToken rt now c")
  case (fields res c' rs)
  have "api_request c' = api_request c"
    using ensureToken_frame(1)[of rt now c] fields
    by (auto simp add: api_request_def after_def fun_eq_iff)
  with fields show ?thesis
    by (cases res) (simp_all add: request_def settled_def split: sum.splits)
qed

lemma returning_void_parts:
  "sent (returning_void out) = sent out"
  "after (returning_void out) = after out"
  "settled (returning_void out) = (case settled out of Inl e \<Rightarrow> Inl e | Inr v \<Rightarrow> Inr Undefined)"
  by (auto simp add: returning_void_def sent_def after_def settled_def split: prod.splits sum.splits)

lemma perform_routed:
  "op \<noteq> GetHealth \<Longrightarrow> perform rt now c op =
     (if mutating op \<and> c_readonly c then (Inl (ReadonlyModeError (op_name op)), c, [])
      else if deleting op
      then returning_void (request rt now c (op_method op) (op_path op) (op_body op))
      else request rt now c (op_method op) (op_path op) (op_body op))"
  by (cases op) (simp_all add: method_defs assertWritable_def)

lemma op_path_not_tokens: "op \<noteq> GetHealth \<Longrightarrow> op_path op \<noteq> ''/tokens''"
  by (cases op) simp_all

lemma cached_token_readonly:
  "cached_token now (c\<lparr>c_readonly := b\<rparr>) = cached_token now c"
  by (simp add: cached_token_def split: option.splits)

lemma ensureToken_readonly:
  "ensureToken rt now (c\<lparr>c_readonly := b\<rparr>) =
     (case ensureToken rt now c of (res, c', rs) \<Rightarrow> (res, c'\<lparr>c_readonly := b\<rparr>, rs))"
  by (simp add: ensureToken_def cached_token_readonly token_request_def
           split: option.splits sum.splits)

lemma request_readonly:
  "request rt now (c\<lparr>c_readonly := b\<rparr>) m p d =
     (case request rt now c m p d of (res, c', rs) \<Rightarrow> (res, c'\<lparr>c_readonly := b\<rparr>, rs))"
proof (cases "ensureToken rt now c")
  case (fields res c' rs)
  then show ?thesis
    by (cases res)
       (simp_all add: request_def ensureToken_readonly api_request_def split: sum.splits)
qed

lemma getHealth_readonly:
  "getHealth rt (c\<lparr>c_readonly := b\<rparr>) =
     (case getHealth rt c of (res, c', rs) \<Rightarrow> (res, c'\<lparr>c_readonly := b\<rparr>, rs))"
  by (simp add: getHealth_def health_request_def split: sum.splits)

lemma deleting_mutating: "deleting op \<Longrightarrow> mutating op"
  by (cases op) simp_all

lemma perform_read_readonly:
  assumes "\<not> mutating op"
  shows "perform rt now (c\<lparr>c_readonly := b\<rparr>) op =
     (case perform rt now c op of (res, c', rs) \<Rightarrow> (res, c'\<lparr>c_readonly := b\<rparr>, rs))"
proof (cases "op = GetHealth")
  case True
  then show ?thesis
    by (simp add: getHealth_readonly)
next
  case False
  moreover from assms have "\<not> deleting op"
    using deleting_mutating by blast
  ultimately show ?thesis
    using assms by (simp add: perform_routed request_readonly)
qed

lemma perform_blocked:
  "mutating op \<Longrightarrow> c_readonly c \<Longrightarrow>
   perform rt now c op = (Inl (ReadonlyModeError (op_name op)), c, [])"
  by (cases op) (simp_all add: method_defs assertWritable_def)

lemma readonly_message_name:
  "sublist operation (message (ReadonlyModeError operation))"
  unfolding ReadonlyModeError_def
  by (simp add: sublist_def) (metis append.assoc append_Cons append_Nil)

lemma readonly_message_phrase:
  "sublist ''readonly mode'' (message (ReadonlyModeError operation))"
proof -
  have "message (ReadonlyModeError operation) =
          (''Operation '' @ [CHR 0x22] @ operation @ [CHR 0x22] @ '' is not allowed in '')
          @ ''readonly mode''"
    by (simp add: ReadonlyModeError_def)
  then show ?thesis
    by (simp only: sublist_append_leftI)
qed

section \<open>The readonly guard\<close>

text \<open>
  C1. With the readonly flag set, each of the twenty-five mutating methods is rejected
  with a \<^verbatim>\<open>ReadonlyModeError\<close> whose message contains the name of the method and the
  phrase \<^verbatim>\<open>readonly mode\<close>; nothing is passed to \<^verbatim>\<open>fetch\<close> (neither the token request nor
  the resource request) and the client is unchanged. A reading method (\<^verbatim>\<open>list*\<close>, \<^verbatim>\<open>get*\<close>,
  \<^verbatim>\<open>getHealth\<close>) does not depend on the flag: setting it to any value changes neither how
  the call settles nor what it sends. The mutating methods are exactly the twenty-five
  that the claim names.
\<close>

theorem readonly_guard:
  "(mutating op \<and> c_readonly c \<longrightarrow>
      settled (perform rt now c op) = Inl (ReadonlyModeError (op_name op)) \<and>
      name (ReadonlyModeError (op_name op)) = ''ReadonlyModeError'' \<and>
      sublist (op_name op) (message (ReadonlyModeError (op_name op))) \<and>
      sublist ''readonly mode'' (message (ReadonlyModeError (op_name op))) \<and>
      sent (perform rt now c op) = [] \<and>
      after (perform rt now c op) = c) \<and>
   (\<not> mutating op \<longrightarrow>
      settled (perform rt now (c\<lparr>c_readonly := b\<rparr>) op) = settled (perform rt now c op) \<and>
      sent (perform rt now (c\<lparr>c_readonly := b\<rparr>) op) = sent (perform rt now c op) \<and>
      after (perform rt now (c\<lparr>c_readonly := b\<rparr>) op) =
        (after (perform rt now c op))\<lparr>c_readonly := b\<rparr>) \<and>
   (mutating op \<longleftrightarrow>
      op_name op \<in> set
        [''createProxyHost'', ''updateProxyHost'', ''deleteProxyHost'', ''enableProxyHost'',
         ''disableProxyHost'', ''createStream'', ''updateStream'', ''deleteStream'',
         ''enableStream'', ''disableStream'', ''createRedirectionHost'',
         ''updateRedirectionHost'', ''deleteRedirectionHost'', ''enableRedirectionHost'',
         ''disableRedirectionHost'', ''createDeadHost'', ''updateDeadHost'', ''deleteDeadHost'',
         ''enableDeadHost'', ''disableDeadHost'', ''createAccessList'', ''updateAccessList'',
         ''deleteAccessList'', ''deleteCertificate'', ''renewCertificate''])"
proof (intro conjI impI)
  assume blocked: "mutating op \<and> c_readonly c"
  then have eq: "perform rt now c op = (Inl (ReadonlyModeError (op_name op)), c, [])"
    by (simp add: perform_blocked)
  show "settled (perform rt now c op) = Inl (ReadonlyModeError (op_name op))"
    by (simp add: eq settled_def)
  show "name (ReadonlyModeError (op_name op)) = ''ReadonlyModeError''"
    by (simp add: ReadonlyModeError_def)
  show "sublist (op_name op) (message (ReadonlyModeError (op_name op)))"
    by (rule readonly_message_name)
  show "sublist ''readonly mode'' (message (ReadonlyModeError (op_name op)))"
    by (rule readonly_message_phrase)
  show "sent (perform rt now c op) = []"
    by (simp add: eq sent_def)
  show "after (perform rt now c op) = c"
    by (simp add: eq after_def)
next
  assume reading: "\<not> mutating op"
  note eq = perform_read_readonly[OF reading, where rt = rt and now = now and c = c and b = b]
  show "settled (perform rt now (c\<lparr>c_readonly := b\<rparr>) op) = settled (perform rt now c op)"
    by (simp add: eq settled_def split: prod.splits)
  show "sent (perform rt now (c\<lparr>c_readonly := b\<rparr>) op) = sent (perform rt now c op)"
    by (simp add: eq sent_def split: prod.splits)
  show "after (perform rt now (c\<lparr>c_readonly := b\<rparr>) op) =
          (after (perform rt now c op))\<lparr>c_readonly := b\<rparr>"
    by (simp add: eq after_def split: prod.splits)
next
  show "mutating op \<longleftrightarrow>
      op_name op \<in> set
        [''createProxyHost'', ''updateProxyHost'', ''deleteProxyHost'', ''enableProxyHost'',
         ''disableProxyHost'', ''createStream'', ''updateStream'', ''deleteStream'',
         ''enableStream'', ''disableStream'', ''createRedirectionHost'',
         ''updateRedirectionHost'', ''deleteRedirectionHost'', ''enableRedirectionHost'',
         ''disableRedirectionHost'', ''createDeadHost'', ''updateDeadHost'', ''deleteDeadHost'',
         ''enableDeadHost'', ''disableDeadHost'', ''createAccessList'', ''updateAccessList'',
         ''deleteAccessList'', ''deleteCertificate'', ''renewCertificate'']"
    by (cases op) simp_all
qed

text \<open>
  The guard at work: \<^verbatim>\<open>deleteStream(5)\<close> on a readonly client, and \<^verbatim>\<open>listStreams()\<close> on a
  client whose flag is set.
\<close>

theorem readonly_guard_witness:
  "settled (perform (example_runtime (answer_200 ''{...}'') answer_204 good_token) 0
              (NpmApiClient (example_config True)) (DeleteStream 5))
     = Inl (ReadonlyModeError ''deleteStream'') \<and>
   message (ReadonlyModeError ''deleteStream'')
     = ''Operation '' @ [CHR 0x22] @ ''deleteStream'' @ [CHR 0x22] @ '' is not allowed in readonly mode'' \<and>
   sublist ''deleteStream'' (message (ReadonlyModeError ''deleteStream'')) \<and>
   sublist ''readonly mode'' (message (ReadonlyModeError ''deleteStream'')) \<and>
   sent (perform (example_runtime (answer_200 ''{...}'') answer_204 good_token) 0
           (NpmApiClient (example_config True)) (DeleteStream 5)) = [] \<and>
   settled (perform (example_runtime (answer_200 ''{...}'') (answer_200 ''[]'') good_token) 0
              ((NpmApiClient (example_config False))\<lparr>c_readonly := True\<rparr>) ListStreams)
     = Inr (Array [])"
proof -
  let ?rt = "example_runtime (answer_200 ''{...}'') answer_204 good_token"
  let ?rt' = "example_runtime (answer_200 ''{...}'') (answer_200 ''[]'') good_token"
  have blocked: "mutating (DeleteStream 5) \<and> c_readonly (NpmApiClient (example_config True))"
    by (simp add: NpmApiClient_def example_config_def)
  have reading: "\<not> mutating ListStreams"
    by simp
  have plain: "settled (perform ?rt' 0 (NpmApiClient (example_config False)) ListStreams)
                 = Inr (Array [])"
    by (simp add: listStreams_def request_def ensureToken_def cached_token_def
          NpmApiClient_def example_config_def example_runtime_def token_request_def
          strip_trailing_slash_def answer_200_def ok_def good_token_def api_request_def
          settled_def)
  from readonly_guard[where op = "DeleteStream 5" and c = "NpmApiClient (example_config True)"
                         and rt = ?rt and now = 0 and b = True]
       readonly_guard[where op = ListStreams and c = "NpmApiClient (example_config False)"
                         and rt = ?rt' and now = 0 and b = True]
       blocked reading plain
  show ?thesis
    by (simp add: ReadonlyModeError_def)
qed

lemmas example_defs =
  fresh_client_def readonly_client_def signed_in_client_def empty_token_client_def
  good_runtime_def empty_token_runtime_def example_runtime_def example_config_def
  good_token_def empty_token_def answer_200_def answer_204_def answer_500_def
  NpmApiClient_def strip_trailing_slash_def

lemmas client_defs =
  ensureToken_def cached_token_def token_request_def api_request_def request_def ok_def
  settled_def after_def sent_def is_token_request_def

lemma cached_token_Some_iff:
  "cached_token now c = Some t \<longleftrightarrow>
     c_token c = Some t \<and> t \<noteq> [] \<and> (\<exists>e. c_tokenExpires c = Some (Some e) \<and> now < e)"
  by (auto simp add: cached_token_def split: option.splits)

lemma cached_token_None_iff:
  "cached_token now c = None \<longleftrightarrow>
     \<not> (\<exists>t e. c_token c = Some t \<and> t \<noteq> [] \<and> c_tokenExpires c = Some (Some e) \<and> now < e)"
  by (auto simp add: cached_token_def split: option.splits)

lemma ensureToken_cached:
  "cached_token now c = Some t \<Longrightarrow> ensureToken rt now c = (Inr t, c, [])"
  by (simp add: ensureToken_def)

lemma token_request_is_token_request:
  "is_token_request c (token_request c)"
  by (simp add: is_token_request_def token_request_def)

lemma api_request_not_token_request:
  "p \<noteq> ''/tokens'' \<Longrightarrow> \<not> is_token_request c (api_request c tok m p d)"
  by (simp add: is_token_request_def api_request_def)

lemma perform_sent:
  assumes "op \<noteq> GetHealth" and "\<not> (mutating op \<and> c_readonly c)"
  shows "sent (perform rt now c op) =
           sent (ensureToken rt now c) @
           (case settled (ensureToken rt now c) of
              Inl e \<Rightarrow> []
            | Inr tok \<Rightarrow> [api_request c tok (op_method op) (op_path op) (op_body op)])"
  using assms by (auto simp add: perform_routed returning_void_parts request_sent)

lemma perform_after:
  assumes "op \<noteq> GetHealth" and "\<not> (mutating op \<and> c_readonly c)"
  shows "after (perform rt now c op) = after (ensureToken rt now c)"
  using assms by (auto simp add: perform_routed returning_void_parts request_after)

lemma token_requests_of_perform:
  assumes "op \<noteq> GetHealth" and "\<not> (mutating op \<and> c_readonly c)"
  shows "length (filter (is_token_request c) (sent (perform rt now c op))) =
           (if cached_token now c = None then 1 else 0)"
proof -
  have "\<not> is_token_request c (api_request c tok (op_method op) (op_path op) (op_body op))" for tok
    using assms(1) by (simp add: api_request_not_token_request op_path_not_tokens)
  then show ?thesis
    by (simp add: perform_sent[OF assms] ensureToken_sent token_request_is_token_request
             split: sum.splits)
qed

lemma is_token_request_after:
  "is_token_request (after (ensureToken rt now c)) = is_token_request c"
  by (simp add: is_token_request_def fun_eq_iff ensureToken_frame)

section \<open>The token lifecycle\<close>

lemma ensureToken_stores:
  assumes "cached_token now c = None" and "fetch rt (token_request c) = Inr r" and "ok r"
    and "json_token rt (response_text r) = Inr data"
  shows "ensureToken rt now c =
           (Inr (token data),
            c\<lparr>c_token := Some (token data), c_tokenExpires := Some (Date rt (expires data))\<rparr>,
            [token_request c])"
  using assms by (simp add: ensureToken_def)

lemma cached_token_stored:
  assumes "t \<noteq> []" and "now < e"
  shows "cached_token now (c\<lparr>c_token := Some t, c_tokenExpires := Some (Some e)\<rparr>) = Some t"
  using assms by (simp add: cached_token_def)

lemma two_calls_one_token_request:
  assumes routed: "op \<noteq> GetHealth" "op' \<noteq> GetHealth"
    and free: "\<not> (mutating op \<and> c_readonly c)" "\<not> (mutating op' \<and> c_readonly c)"
    and absent: "cached_token now c = None"
    and stored: "cached_token now' (after (perform rt now c op)) \<noteq> None"
  shows "length (filter (is_token_request c)
                   (sent (perform rt now c op) @
                    sent (perform rt' now' (after (perform rt now c op)) op'))) = 1"
proof -
  let ?c1 = "after (perform rt now c op)"
  have first: "length (filter (is_token_request c) (sent (perform rt now c op))) = 1"
    using routed(1) free(1) absent by (simp add: token_requests_of_perform)
  have c1: "?c1 = after (ensureToken rt now c)"
    using routed(1) free(1) by (rule perform_after)
  then have same: "is_token_request ?c1 = is_token_request c"
    and ro: "c_readonly ?c1 = c_readonly c"
    by (simp_all add: ensureToken_frame is_token_request_after)
  from free(2) ro have "\<not> (mutating op' \<and> c_readonly ?c1)"
    by simp
  from token_requests_of_perform[OF routed(2) this, of rt' now'] stored
  have "length (filter (is_token_request ?c1) (sent (perform rt' now' ?c1 op'))) = 0"
    by simp
  with first same show ?thesis
    by simp
qed

text \<open>
  C2, as amended. \<^verbatim>\<open>ensureToken\<close> sends nothing exactly when a non-empty token is stored
  together with a valid expiry date that is strictly later than the current time, and
  then it returns the stored token and leaves the client as it is. In every other case
  (no token, an empty token, no date, an invalid date, or a time at or after the expiry)
  it sends exactly one request, the token request; when that is answered with a status
  in 200 to 299 and a body that decodes, the client stores the token and the expiry date
  of the answer. A method that goes through \<^verbatim>\<open>request\<close> sends what \<^verbatim>\<open>ensureToken\<close> sends
  and then, if a token was obtained, the resource request. Consequently, when a first
  call has to authenticate and the answer carries a non-empty token whose expiry is
  later than the time of a second call, the client after the first call holds that token
  and that date, and the two calls together send exactly one token request, on a
  read-write client and, for calls that are not blocked, on a readonly one; and a call
  at or after the stored expiry sends exactly one.
\<close>

theorem token_lifecycle:
  "(sent (ensureToken rt now c) = [] \<longleftrightarrow>
      (\<exists>t e. c_token c = Some t \<and> t \<noteq> [] \<and> c_tokenExpires c = Some (Some e) \<and> now < e)) \<and>
   (c_token c = Some t \<and> t \<noteq> [] \<and> c_tokenExpires c = Some (Some e) \<and> now < e \<longrightarrow>
      ensureToken rt now c = (Inr t, c, [])) \<and>
   (\<not> (\<exists>t e. c_token c = Some t \<and> t \<noteq> [] \<and> c_tokenExpires c = Some (Some e) \<and> now < e) \<longrightarrow>
      sent (ensureToken rt now c) = [token_request c]) \<and>
   (op \<noteq> GetHealth \<and> \<not> (mutating op \<and> c_readonly c) \<longrightarrow>
      sent (perform rt now c op) =
        sent (ensureToken rt now c) @
        (case settled (ensureToken rt now c) of
           Inl err \<Rightarrow> []
         | Inr tok \<Rightarrow> [api_request c tok (op_method op) (op_path op) (op_body op)])) \<and>
   (cached_token now c = None \<and> fetch rt (token_request c) = Inr r \<and> ok r \<and>
    json_token rt (response_text r) = Inr data \<longrightarrow>
      ensureToken rt now c =
        (Inr (token data),
         c\<lparr>c_token := Some (token data), c_tokenExpires := Some (Date rt (expires data))\<rparr>,
         [token_request c])) \<and>
   (op \<noteq> GetHealth \<and> op' \<noteq> GetHealth \<and>
    \<not> (mutating op \<and> c_readonly c) \<and> \<not> (mutating op' \<and> c_readonly c) \<and>
    cached_token now c = None \<and> fetch rt (token_request c) = Inr r \<and> ok r \<and>
    json_token rt (response_text r) = Inr data \<and> token data \<noteq> [] \<and>
    Date rt (expires data) = Some e' \<and> now' < e' \<longrightarrow>
      after (perform rt now c op) =
        c\<lparr>c_token := Some (token data), c_tokenExpires := Some (Some e')\<rparr> \<and>
      length (filter (is_token_request c)
                (sent (perform rt now c op) @
                 sent (perform rt' now' (after (perform rt now c op)) op'))) = 1) \<and>
   (op \<noteq> GetHealth \<and> op' \<noteq> GetHealth \<and>
    \<not> (mutating op \<and> c_readonly c) \<and> \<not> (mutating op' \<and> c_readonly c) \<and>
    cached_token now c = None \<and>
    c_token (after (perform rt now c op)) = Some t' \<and> t' \<noteq> [] \<and>
    c_tokenExpires (after (perform rt now c op)) = Some (Some e') \<and> now' < e' \<longrightarrow>
      length (filter (is_token_request c)
                (sent (perform rt now c op) @
                 sent (perform rt' now' (after (perform rt now c op)) op'))) = 1) \<and>
   (op \<noteq> GetHealth \<and> \<not> (mutating op \<and> c_readonly c) \<and>
    c_tokenExpires c = Some (Some e) \<and> e \<le> now \<longrightarrow>
      length (filter (is_token_request c) (sent (perform rt now c op))) = 1)"
proof (intro conjI impI)
  show "sent (ensureToken rt now c) = [] \<longleftrightarrow>
      (\<exists>t e. c_token c = Some t \<and> t \<noteq> [] \<and> c_tokenExpires c = Some (Some e) \<and> now < e)"
    using cached_token_None_iff[of now c] by (simp add: ensureToken_sent)
next
  assume "c_token c = Some t \<and> t \<noteq> [] \<and> c_tokenExpires c = Some (Some e) \<and> now < e"
  then have "cached_token now c = Some t"
    by (simp add: cached_token_Some_iff)
  then show "ensureToken rt now c = (Inr t, c, [])"
    by (rule ensureToken_cached)
next
  assume "\<not> (\<exists>t e. c_token c = Some t \<and> t \<noteq> [] \<and> c_tokenExpires c = Some (Some e) \<and> now < e)"
  then have "cached_token now c = None"
    by (simp only: cached_token_None_iff not_False_eq_True)
  then show "sent (ensureToken rt now c) = [token_request c]"
    by (simp add: ensureToken_sent)
next
  assume "op \<noteq> GetHealth \<and> \<not> (mutating op \<and> c_readonly c)"
  then show "sent (perform rt now c op) =
        sent (ensureToken rt now c) @
        (case settled (ensureToken rt now c) of
           Inl err \<Rightarrow> []
         | Inr tok \<Rightarrow> [api_request c tok (op_method op) (op_path op) (op_body op)])"
    by (simp add: perform_sent)
next
  assume "cached_token now c = None \<and> fetch rt (token_request c) = Inr r \<and> ok r \<and>
    json_token rt (response_text r) = Inr data"
  then show "ensureToken rt now c =
        (Inr (token data),
         c\<lparr>c_token := Some (token data), c_tokenExpires := Some (Date rt (expires data))\<rparr>,
         [token_request c])"
    by (simp add: ensureToken_stores)
next
  let ?c1 = "c\<lparr>c_token := Some (token data), c_tokenExpires := Some (Some e')\<rparr>"
  assume h: "op \<noteq> GetHealth \<and> op' \<noteq> GetHealth \<and>
    \<not> (mutating op \<and> c_readonly c) \<and> \<not> (mutating op' \<and> c_readonly c) \<and>
    cached_token now c = None \<and> fetch rt (token_request c) = Inr r \<and> ok r \<and>
    json_token rt (response_text r) = Inr data \<and> token data \<noteq> [] \<and>
    Date rt (expires data) = Some e' \<and> now' < e'"
  then have "ensureToken rt now c = (Inr (token data), ?c1, [token_request c])"
    by (simp add: ensureToken_stores)
  then have "after (ensureToken rt now c) = ?c1"
    by (simp add: after_def)
  with h show stored: "after (perform rt now c op) = ?c1"
    by (simp add: perform_after)
  from h have "cached_token now' ?c1 = Some (token data)"
    by (simp add: cached_token_stored)
  then have kept: "cached_token now' (after (perform rt now c op)) \<noteq> None"
    by (simp add: stored)
  from h have "op \<noteq> GetHealth" and "op' \<noteq> GetHealth"
    and "\<not> (mutating op \<and> c_readonly c)" and "\<not> (mutating op' \<and> c_readonly c)"
    and "cached_token now c = None"
    by blast+
  then show "length (filter (is_token_request c)
                (sent (perform rt now c op) @
                 sent (perform rt' now' (after (perform rt now c op)) op'))) = 1"
    using kept by (rule two_calls_one_token_request)
next
  assume h: "op \<noteq> GetHealth \<and> op' \<noteq> GetHealth \<and>
    \<not> (mutating op \<and> c_readonly c) \<and> \<not> (mutating op' \<and> c_readonly c) \<and>
    cached_token now c = None \<and>
    c_token (after (perform rt now c op)) = Some t' \<and> t' \<noteq> [] \<and>
    c_tokenExpires (after (perform rt now c op)) = Some (Some e') \<and> now' < e'"
  then have "cached_token now' (after (perform rt now c op)) = Some t'"
    by (simp add: cached_token_Some_iff)
  then have kept: "cached_token now' (after (perform rt now c op)) \<noteq> None"
    by simp
  from h have "op \<noteq> GetHealth" and "op' \<noteq> GetHealth"
    and "\<not> (mutating op \<and> c_readonly c)" and "\<not> (mutating op' \<and> c_readonly c)"
    and "cached_token now c = None"
    by blast+
  then show "length (filter (is_token_request c)
                (sent (perform rt now c op) @
                 sent (perform rt' now' (after (perform rt now c op)) op'))) = 1"
    using kept by (rule two_calls_one_token_request)
next
  assume h: "op \<noteq> GetHealth \<and> \<not> (mutating op \<and> c_readonly c) \<and>
    c_tokenExpires c = Some (Some e) \<and> e \<le> now"
  then have "cached_token now c = None"
    by (simp add: cached_token_def split: option.splits)
  with h show "length (filter (is_token_request c) (sent (perform rt now c op))) = 1"
    by (simp add: token_requests_of_perform)
qed

text \<open>
  The lifecycle on the example service: a signed-in client reuses its token; a fresh one
  authenticates once and stores the token and the expiry of the answer; two calls in a
  row authenticate once, on a read-write client and, for two reads, on a readonly one;
  and a call at the expiry time authenticates again.
\<close>

theorem token_lifecycle_witness:
  "ensureToken good_runtime 0 signed_in_client = (Inr ''eyJhbGciOi'', signed_in_client, []) \<and>
   sent (ensureToken good_runtime 0 fresh_client) = [token_request fresh_client] \<and>
   sent (perform good_runtime 0 fresh_client ListStreams) =
     [token_request fresh_client,
      api_request fresh_client ''eyJhbGciOi'' ''GET'' ''/nginx/streams'' Undefined] \<and>
   ensureToken good_runtime 0 fresh_client =
     (Inr ''eyJhbGciOi'', signed_in_client, [token_request fresh_client]) \<and>
   after (perform good_runtime 0 fresh_client ListStreams) = signed_in_client \<and>
   length (filter (is_token_request fresh_client)
             (sent (perform good_runtime 0 fresh_client ListStreams) @
              sent (perform good_runtime 999 signed_in_client (GetStream 5)))) = 1 \<and>
   length (filter (is_token_request readonly_client)
             (sent (perform good_runtime 0 readonly_client ListStreams) @
              sent (perform good_runtime 999
                      (after (perform good_runtime 0 readonly_client ListStreams))
                      (GetStream 5)))) = 1 \<and>
   length (filter (is_token_request signed_in_client)
             (sent (perform good_runtime 1000 signed_in_client ListStreams))) = 1"
proof -
  have tok: "settled (ensureToken good_runtime 0 fresh_client) = Inr ''eyJhbGciOi''"
    by (simp add: example_defs client_defs)
  have cached: "c_token signed_in_client = Some ''eyJhbGciOi'' \<and> ''eyJhbGciOi'' \<noteq> [] \<and>
                c_tokenExpires signed_in_client = Some (Some 1000) \<and> (0::int) < 1000"
    by (simp add: example_defs)
  have absent: "\<not> (\<exists>t e. c_token fresh_client = Some t \<and> t \<noteq> [] \<and>
                          c_tokenExpires fresh_client = Some (Some e) \<and> (0::int) < e)"
    by (simp add: example_defs)
  have routed: "ListStreams \<noteq> GetHealth \<and> \<not> (mutating ListStreams \<and> c_readonly fresh_client)"
    by simp
  have answer: "cached_token 0 fresh_client = None \<and>
      fetch good_runtime (token_request fresh_client) = Inr (answer_200 ''{...}'') \<and>
      ok (answer_200 ''{...}'') \<and>
      json_token good_runtime (response_text (answer_200 ''{...}'')) = Inr good_token"
    by (simp add: example_defs cached_token_def token_request_def ok_def)
  have answer_ro: "cached_token 0 readonly_client = None \<and>
      fetch good_runtime (token_request readonly_client) = Inr (answer_200 ''{...}'') \<and>
      ok (answer_200 ''{...}'') \<and>
      json_token good_runtime (response_text (answer_200 ''{...}'')) = Inr good_token"
    by (simp add: example_defs cached_token_def token_request_def ok_def)
  have good: "token good_token \<noteq> [] \<and> Date good_runtime (expires good_token) = Some 1000 \<and>
      (999::int) < 1000"
    by (simp add: example_defs)
  have calls: "ListStreams \<noteq> GetHealth \<and> GetStream 5 \<noteq> GetHealth \<and>
      \<not> (mutating ListStreams \<and> c_readonly c) \<and> \<not> (mutating (GetStream 5) \<and> c_readonly c)"
    for c
    by simp
  have shape: "fresh_client\<lparr>c_token := Some (token good_token),
                           c_tokenExpires := Some (Date good_runtime (expires good_token))\<rparr>
                 = signed_in_client"
    "fresh_client\<lparr>c_token := Some (token good_token), c_tokenExpires := Some (Some 1000)\<rparr>
                 = signed_in_client"
    "token good_token = ''eyJhbGciOi''"
    by (simp_all add: example_defs)
  have expired: "ListStreams \<noteq> GetHealth \<and> \<not> (mutating ListStreams \<and> c_readonly signed_in_client) \<and>
      c_tokenExpires signed_in_client = Some (Some 1000) \<and> (1000::int) \<le> 1000"
    by (simp add: example_defs)
  note at_cached = token_lifecycle[where rt = good_runtime and now = 0 and c = signed_in_client
      and t = "''eyJhbGciOi''" and e = 1000]
  note at_fresh = token_lifecycle[where rt = good_runtime and now = 0 and c = fresh_client
      and op = ListStreams and op' = "GetStream 5" and r = "answer_200 ''{...}''"
      and data = good_token and e' = 1000 and now' = 999 and rt' = good_runtime
      and t' = "''eyJhbGciOi''"]
  note at_readonly = token_lifecycle[where rt = good_runtime and now = 0 and c = readonly_client
      and op = ListStreams and op' = "GetStream 5" and r = "answer_200 ''{...}''"
      and data = good_token and e' = 1000 and now' = 999 and rt' = good_runtime]
  note at_expiry = token_lifecycle[where rt = good_runtime and now = 1000 and c = signed_in_client
      and op = ListStreams and e = 1000]
  from at_cached cached
  have 1: "ensureToken good_runtime 0 signed_in_client = (Inr ''eyJhbGciOi'', signed_in_client, [])"
    by blast
  from at_fresh absent
  have 2: "sent (ensureToken good_runtime 0 fresh_client) = [token_request fresh_client]"
    by blast
  from at_fresh routed
  have "sent (perform good_runtime 0 fresh_client ListStreams) =
        sent (ensureToken good_runtime 0 fresh_client) @
        (case settled (ensureToken good_runtime 0 fresh_client) of
           Inl err \<Rightarrow> []
         | Inr tok \<Rightarrow> [api_request fresh_client tok (op_method ListStreams) (op_path ListStreams)
                         (op_body ListStreams)])"
    by blast
  then have 3: "sent (perform good_runtime 0 fresh_client ListStreams) =
     [token_request fresh_client,
      api_request fresh_client ''eyJhbGciOi'' ''GET'' ''/nginx/streams'' Undefined]"
    by (simp add: 2 tok)
  from at_fresh answer
  have "ensureToken good_runtime 0 fresh_client =
        (Inr (token good_token),
         fresh_client\<lparr>c_token := Some (token good_token),
                      c_tokenExpires := Some (Date good_runtime (expires good_token))\<rparr>,
         [token_request fresh_client])"
    by blast
  then have "ensureToken good_runtime 0 fresh_client =
     (Inr (token good_token), signed_in_client, [token_request fresh_client])"
    by (simp only: shape(1))
  then have 4: "ensureToken good_runtime 0 fresh_client =
     (Inr ''eyJhbGciOi'', signed_in_client, [token_request fresh_client])"
    by (simp only: shape(3))
  from at_fresh calls[of fresh_client] answer good
  have "after (perform good_runtime 0 fresh_client ListStreams) =
          fresh_client\<lparr>c_token := Some (token good_token), c_tokenExpires := Some (Some 1000)\<rparr>"
    and both: "length (filter (is_token_request fresh_client)
             (sent (perform good_runtime 0 fresh_client ListStreams) @
              sent (perform good_runtime 999 (after (perform good_runtime 0 fresh_client ListStreams))
                      (GetStream 5)))) = 1"
    by blast+
  then have step: "after (perform good_runtime 0 fresh_client ListStreams) = signed_in_client"
    by (simp only: shape(2))
  from both have 5: "length (filter (is_token_request fresh_client)
             (sent (perform good_runtime 0 fresh_client ListStreams) @
              sent (perform good_runtime 999 signed_in_client (GetStream 5)))) = 1"
    by (simp only: step)
  have state: "ListStreams \<noteq> GetHealth \<and> GetStream 5 \<noteq> GetHealth \<and>
      \<not> (mutating ListStreams \<and> c_readonly fresh_client) \<and>
      \<not> (mutating (GetStream 5) \<and> c_readonly fresh_client) \<and>
      cached_token 0 fresh_client = None \<and>
      c_token (after (perform good_runtime 0 fresh_client ListStreams)) = Some ''eyJhbGciOi'' \<and>
      ''eyJhbGciOi'' \<noteq> [] \<and>
      c_tokenExpires (after (perform good_runtime 0 fresh_client ListStreams)) = Some (Some 1000) \<and>
      (999::int) < 1000"
    unfolding step by (simp add: example_defs cached_token_def)
  from at_fresh state
  have 6: "length (filter (is_token_request fresh_client)
             (sent (perform good_runtime 0 fresh_client ListStreams) @
              sent (perform good_runtime 999 (after (perform good_runtime 0 fresh_client ListStreams))
                      (GetStream 5)))) = 1"
    by blast
  from at_readonly calls[of readonly_client] answer_ro good
  have 7: "length (filter (is_token_request readonly_client)
             (sent (perform good_runtime 0 readonly_client ListStreams) @
              sent (perform good_runtime 999
                      (after (perform good_runtime 0 readonly_client ListStreams))
                      (GetStream 5)))) = 1"
    by blast
  from at_expiry expired
  have 8: "length (filter (is_token_request signed_in_client)
             (sent (perform good_runtime 1000 signed_in_client ListStreams))) = 1"
    by blast
  from 1 2 3 4 step 5 7 8 show ?thesis
    by (intro conjI)
qed

text \<open>
  The claim as written, with "a token is stored" and no more, fails when the stored token
  is the empty string, which the test \<^verbatim>\<open>this.token && ...\<close> takes for absent. A service
  that answers the token endpoint with an empty token and an expiry in the future makes
  the client store both; the next call, well before the expiry, authenticates again, so
  that two calls in a row send two token requests.
\<close>

theorem token_lifecycle_counterexample:
  "after (perform empty_token_runtime 0 fresh_client ListStreams) = empty_token_client \<and>
   c_token empty_token_client = Some [] \<and>
   c_tokenExpires empty_token_client = Some (Some 1000) \<and>
   (10::int) < 1000 \<and>
   sent (ensureToken empty_token_runtime 10 empty_token_client)
     = [token_request empty_token_client] \<and>
   length (filter (is_token_request fresh_client)
             (sent (perform empty_token_runtime 0 fresh_client ListStreams) @
              sent (perform empty_token_runtime 10 empty_token_client ListStreams))) = 2"
  by (simp add: listStreams_def example_defs client_defs)

lemmas more_example_defs =
  no_content_runtime_def failing_runtime_def auth_failing_runtime_def unhealthy_runtime_def

lemma perform_settled:
  assumes "op \<noteq> GetHealth" and "\<not> (mutating op \<and> c_readonly c)"
  shows "settled (perform rt now c op) =
           (case settled (request rt now c (op_method op) (op_path op) (op_body op)) of
              Inl e \<Rightarrow> Inl e
            | Inr v \<Rightarrow> Inr (if deleting op then Undefined else v))"
  using assms by (auto simp add: perform_routed returning_void_parts split: sum.splits)

lemma ensureToken_failed_auth:
  assumes "cached_token now c = None" and "fetch rt (token_request c) = Inr r" and "\<not> ok r"
  shows "ensureToken rt now c =
           (Inl (Error (''Authentication failed: '' @ response_text r)), c, [token_request c])"
  using assms by (simp add: ensureToken_def)

lemma api_failed_message_status:
  "sublist (digits n) (message (Error (''API request failed: '' @ digits n @ '' - '' @ txt)))"
proof -
  have "message (Error (''API request failed: '' @ digits n @ '' - '' @ txt)) =
          ''API request failed: '' @ digits n @ ('' - '' @ txt)"
    by (simp add: Error_def)
  then show ?thesis
    by (simp only: sublist_appendI)
qed

lemma api_failed_message_body:
  "sublist txt (message (Error (''API request failed: '' @ digits n @ '' - '' @ txt)))"
proof -
  have "message (Error (''API request failed: '' @ digits n @ '' - '' @ txt)) =
          (''API request failed: '' @ digits n @ '' - '') @ txt"
    by (simp add: Error_def)
  then show ?thesis
    by (simp only: sublist_append_leftI)
qed

lemma auth_failed_message_body:
  "sublist txt (message (Error (''Authentication failed: '' @ txt)))"
proof -
  have "message (Error (''Authentication failed: '' @ txt)) = ''Authentication failed: '' @ txt"
    by (simp add: Error_def)
  then show ?thesis
    by (simp only: sublist_append_leftI)
qed

section \<open>Responses outside 2xx\<close>

text \<open>
  C3, as amended. For every method that goes through \<^verbatim>\<open>request\<close>, an answer of the
  resource endpoint with a status outside 200 to 299 rejects the call with the error
  \<^verbatim>\<open>API request failed: ${status} - ${body}\<close>, whose message contains the status in
  decimal and the body text. An answer of the token endpoint with such a status rejects
  the call with \<^verbatim>\<open>Authentication failed: ${body}\<close>, whose message is that prefix
  followed by the body text, and no resource request is sent; the status is not put
  into this message, so that two such answers with the same body and different statuses
  give the same error. (The statement is silent about \<^verbatim>\<open>getHealth\<close>.)
\<close>

theorem non_2xx_errors:
  "(op \<noteq> GetHealth \<and> \<not> (mutating op \<and> c_readonly c) \<and>
    settled (ensureToken rt now c) = Inr tok \<and>
    fetch rt (api_request c tok (op_method op) (op_path op) (op_body op)) = Inr r \<and>
    \<not> ok r \<longrightarrow>
      settled (perform rt now c op) =
        Inl (Error (''API request failed: '' @ digits (status r) @ '' - '' @ response_text r)) \<and>
      sublist (digits (status r))
        (message (Error (''API request failed: '' @ digits (status r) @ '' - '' @ response_text r))) \<and>
      sublist (response_text r)
        (message (Error (''API request failed: '' @ digits (status r) @ '' - '' @ response_text r)))) \<and>
   (op \<noteq> GetHealth \<and> \<not> (mutating op \<and> c_readonly c) \<and>
    cached_token now c = None \<and> fetch rt (token_request c) = Inr r' \<and> \<not> ok r' \<longrightarrow>
      settled (perform rt now c op) =
        Inl (Error (''Authentication failed: '' @ response_text r')) \<and>
      message (Error (''Authentication failed: '' @ response_text r')) =
        ''Authentication failed: '' @ response_text r' \<and>
      sublist (response_text r') (message (Error (''Authentication failed: '' @ response_text r'))) \<and>
      sent (perform rt now c op) = [token_request c]) \<and>
   (op \<noteq> GetHealth \<and> \<not> (mutating op \<and> c_readonly c) \<and> cached_token now c = None \<and>
    fetch rt (token_request c) = Inr r' \<and> \<not> ok r' \<and>
    fetch rt'' (token_request c) = Inr r'' \<and> \<not> ok r'' \<and>
    response_text r'' = response_text r' \<longrightarrow>
      settled (perform rt'' now c op) = settled (perform rt now c op))"
proof (intro conjI impI)
  assume h: "op \<noteq> GetHealth \<and> \<not> (mutating op \<and> c_readonly c) \<and>
    settled (ensureToken rt now c) = Inr tok \<and>
    fetch rt (api_request c tok (op_method op) (op_path op) (op_body op)) = Inr r \<and> \<not> ok r"
  then have "settled (request rt now c (op_method op) (op_path op) (op_body op)) =
      Inl (Error (''API request failed: '' @ digits (status r) @ '' - '' @ response_text r))"
    by (simp add: request_settled)
  with h show "settled (perform rt now c op) =
      Inl (Error (''API request failed: '' @ digits (status r) @ '' - '' @ response_text r))"
    by (simp add: perform_settled)
  show "sublist (digits (status r))
        (message (Error (''API request failed: '' @ digits (status r) @ '' - '' @ response_text r)))"
    by (rule api_failed_message_status)
  show "sublist (response_text r)
        (message (Error (''API request failed: '' @ digits (status r) @ '' - '' @ response_text r)))"
    by (rule api_failed_message_body)
next
  assume h: "op \<noteq> GetHealth \<and> \<not> (mutating op \<and> c_readonly c) \<and>
    cached_token now c = None \<and> fetch rt (token_request c) = Inr r' \<and> \<not> ok r'"
  then have et: "ensureToken rt now c =
      (Inl (Error (''Authentication failed: '' @ response_text r')), c, [token_request c])"
    by (simp add: ensureToken_failed_auth)
  then have st: "settled (ensureToken rt now c) =
      Inl (Error (''Authentication failed: '' @ response_text r'))"
    by (simp add: settled_def)
  then have "settled (request rt now c (op_method op) (op_path op) (op_body op)) =
      Inl (Error (''Authentication failed: '' @ response_text r'))"
    by (simp add: request_settled)
  with h show "settled (perform rt now c op) =
      Inl (Error (''Authentication failed: '' @ response_text r'))"
    by (simp add: perform_settled)
  show "message (Error (''Authentication failed: '' @ response_text r')) =
        ''Authentication failed: '' @ response_text r'"
    by (simp add: Error_def)
  show "sublist (response_text r') (message (Error (''Authentication failed: '' @ response_text r')))"
    by (rule auth_failed_message_body)
  from et have "sent (ensureToken rt now c) = [token_request c]"
    by (simp add: sent_def)
  with h st show "sent (perform rt now c op) = [token_request c]"
    by (simp add: perform_sent)
next
  assume h: "op \<noteq> GetHealth \<and> \<not> (mutating op \<and> c_readonly c) \<and> cached_token now c = None \<and>
    fetch rt (token_request c) = Inr r' \<and> \<not> ok r' \<and>
    fetch rt'' (token_request c) = Inr r'' \<and> \<not> ok r'' \<and>
    response_text r'' = response_text r'"
  then have "settled (ensureToken rt now c) =
      Inl (Error (''Authentication failed: '' @ response_text r'))"
    and "settled (ensureToken rt'' now c) =
      Inl (Error (''Authentication failed: '' @ response_text r'))"
    by (simp_all add: ensureToken_failed_auth settled_def)
  then have "settled (request rt now c (op_method op) (op_path op) (op_body op)) =
      settled (request rt'' now c (op_method op) (op_path op) (op_body op))"
    by (simp add: request_settled)
  with h show "settled (perform rt'' now c op) = settled (perform rt now c op)"
    by (simp add: perform_settled)
qed

text \<open>
  A service that answers 500 with the body \<^verbatim>\<open>boom\<close>: once on the resource endpoint, once
  on the token endpoint; and a token endpoint that answers 401 with the same body.
\<close>

theorem non_2xx_errors_witness:
  "settled (perform failing_runtime 0 fresh_client (GetProxyHost 7)) =
     Inl (Error ''API request failed: 500 - boom'') \<and>
   sublist ''500'' (message (Error ''API request failed: 500 - boom'')) \<and>
   sublist ''boom'' (message (Error ''API request failed: 500 - boom'')) \<and>
   settled (perform auth_failing_runtime 0 fresh_client (GetProxyHost 7)) =
     Inl (Error ''Authentication failed: boom'') \<and>
   sublist ''boom'' (message (Error ''Authentication failed: boom'')) \<and>
   settled (perform (example_runtime \<lparr>status = 401, response_text = ''boom''\<rparr>
                       (answer_200 ''[]'') good_token) 0 fresh_client (GetProxyHost 7)) =
     Inl (Error ''Authentication failed: boom'')"
proof -
  let ?other = "example_runtime \<lparr>status = 401, response_text = ''boom''\<rparr>
                  (answer_200 ''[]'') good_token"
  have other: "fetch ?other (token_request fresh_client)
                 = Inr \<lparr>status = 401, response_text = ''boom''\<rparr> \<and>
      \<not> ok \<lparr>status = 401, response_text = ''boom''\<rparr> \<and>
      response_text \<lparr>status = 401, response_text = ''boom''\<rparr> = response_text answer_500"
    by (simp add: example_defs client_defs)
  let ?req = "api_request fresh_client ''eyJhbGciOi'' (op_method (GetProxyHost 7))
                (op_path (GetProxyHost 7)) (op_body (GetProxyHost 7))"
  have d: "digits 500 = ''500''"
    by code_simp
  have resource: "GetProxyHost 7 \<noteq> GetHealth \<and>
      \<not> (mutating (GetProxyHost 7) \<and> c_readonly fresh_client) \<and>
      settled (ensureToken failing_runtime 0 fresh_client) = Inr ''eyJhbGciOi'' \<and>
      fetch failing_runtime ?req = Inr answer_500 \<and> \<not> ok answer_500"
    by (simp add: example_defs more_example_defs client_defs)
  have auth: "GetProxyHost 7 \<noteq> GetHealth \<and>
      \<not> (mutating (GetProxyHost 7) \<and> c_readonly fresh_client) \<and>
      cached_token 0 fresh_client = None \<and>
      fetch auth_failing_runtime (token_request fresh_client) = Inr answer_500 \<and> \<not> ok answer_500"
    by (simp add: example_defs more_example_defs client_defs)
  have body: "status answer_500 = 500" "response_text answer_500 = ''boom''"
    by (simp_all add: answer_500_def)
  from non_2xx_errors[where op = "GetProxyHost 7" and c = fresh_client and rt = failing_runtime
         and now = 0 and tok = "''eyJhbGciOi''" and r = answer_500] resource
  have 1: "settled (perform failing_runtime 0 fresh_client (GetProxyHost 7)) =
        Inl (Error (''API request failed: '' @ digits (status answer_500) @ '' - '' @ response_text answer_500)) \<and>
      sublist (digits (status answer_500))
        (message (Error (''API request failed: '' @ digits (status answer_500) @ '' - '' @ response_text answer_500))) \<and>
      sublist (response_text answer_500)
        (message (Error (''API request failed: '' @ digits (status answer_500) @ '' - '' @ response_text answer_500)))"
    by blast
  from non_2xx_errors[where op = "GetProxyHost 7" and c = fresh_client and rt = auth_failing_runtime
         and now = 0 and r' = answer_500] auth
  have 2: "settled (perform auth_failing_runtime 0 fresh_client (GetProxyHost 7)) =
        Inl (Error (''Authentication failed: '' @ response_text answer_500)) \<and>
      sublist (response_text answer_500)
        (message (Error (''Authentication failed: '' @ response_text answer_500)))"
    by blast
  from non_2xx_errors[where op = "GetProxyHost 7" and c = fresh_client and rt = auth_failing_runtime
         and now = 0 and r' = answer_500 and rt'' = ?other
         and r'' = "\<lparr>status = 401, response_text = ''boom''\<rparr>"] auth other
  have 3: "settled (perform ?other 0 fresh_client (GetProxyHost 7)) =
           settled (perform auth_failing_runtime 0 fresh_client (GetProxyHost 7))"
    by blast
  from 1 2 3 show ?thesis
    by (simp add: body d)
qed

text \<open>
  The claim as written fails on the token endpoint and on the health endpoint. When the
  token endpoint answers 500 with the body \<^verbatim>\<open>boom\<close>, the message is
  \<^verbatim>\<open>Authentication failed: boom\<close>, which does not contain the status. When the health
  endpoint answers 500 with a JSON body, \<^verbatim>\<open>getHealth\<close> returns the parsed body and there is
  no error at all.
\<close>

theorem non_2xx_errors_counterexample:
  "fetch auth_failing_runtime (token_request fresh_client)
     = Inr \<lparr>status = 500, response_text = ''boom''\<rparr> \<and>
   settled (perform auth_failing_runtime 0 fresh_client ListStreams)
     = Inl (Error ''Authentication failed: boom'') \<and>
   message (Error ''Authentication failed: boom'') = ''Authentication failed: boom'' \<and>
   \<not> sublist ''500'' ''Authentication failed: boom'' \<and>
   fetch unhealthy_runtime (health_request fresh_client)
     = Inr \<lparr>status = 500, response_text = ''[]''\<rparr> \<and>
   settled (perform unhealthy_runtime 0 fresh_client GetHealth) = Inr (Array [])"
proof -
  have "\<not> sublist ''500'' ''Authentication failed: boom''"
    by (simp add: sublist_Cons_right)
  then show ?thesis
    by (simp add: listStreams_def getHealth_def health_request_def Error_def
          example_defs more_example_defs client_defs)
qed

lemma show_int_5: "show_int 5 = ''5''"
  by code_simp

lemma show_int_7: "show_int 7 = ''7''"
  by code_simp

lemma getHealth_parts:
  "sent (getHealth rt c) = [health_request c]"
  "after (getHealth rt c) = c"
  by (simp_all add: getHealth_def sent_def after_def split: sum.splits)

lemma ensureToken_token_origin:
  assumes "settled (ensureToken rt now c) = Inr tok"
  shows "cached_token now c = Some tok \<or>
         (cached_token now c = None \<and>
          (\<exists>r data. fetch rt (token_request c) = Inr r \<and> ok r \<and>
                    json_token rt (response_text r) = Inr data \<and> tok = token data))"
  using assms
  by (auto simp add: ensureToken_def settled_def split: option.splits sum.splits if_splits)

lemma api_request_bearer:
  "map_of (headers (api_request c tok m p d)) ''Authorization'' = Some (''Bearer '' @ tok)"
  by (simp add: api_request_def)

lemma perform_requests:
  assumes "op \<noteq> GetHealth" and "r \<in> set (sent (perform rt now c op))"
  shows "r = token_request c \<or>
         (\<exists>tok. settled (ensureToken rt now c) = Inr tok \<and>
                r = api_request c tok (op_method op) (op_path op) (op_body op))"
proof (cases "mutating op \<and> c_readonly c")
  case True
  then have "sent (perform rt now c op) = []"
    by (simp add: perform_blocked sent_def)
  with assms(2) show ?thesis
    by simp
next
  case False
  show ?thesis
  proof (cases "settled (ensureToken rt now c)")
    case (Inl e)
    with assms(2) show ?thesis
      by (simp add: perform_sent[OF assms(1) False] ensureToken_sent split: if_splits)
  next
    case (Inr tok)
    with assms(2) show ?thesis
      by (simp add: perform_sent[OF assms(1) False] ensureToken_sent split: if_splits) blast+
  qed
qed

section \<open>The bearer token\<close>

text \<open>
  C4, as amended. Every request that a method other than \<^verbatim>\<open>getHealth\<close> passes to
  \<^verbatim>\<open>fetch\<close> is either the token request or the resource request, and the resource
  request carries the header \<^verbatim>\<open>Authorization: Bearer <token>\<close> with the token that
  \<^verbatim>\<open>ensureToken\<close> returned: the stored one if it is non-empty and not expired at that
  moment, otherwise the one that the token endpoint has just handed out. The token
  request carries no \<^verbatim>\<open>Authorization\<close> header. \<^verbatim>\<open>getHealth\<close> sends a single
  \<^verbatim>\<open>GET ${baseUrl}/api/\<close> without any header, and neither acquires nor uses a token.
\<close>

theorem bearer_token_on_requests:
  "(op \<noteq> GetHealth \<longrightarrow>
      (\<forall>r \<in> set (sent (perform rt now c op)).
         r = token_request c \<or>
         (\<exists>tok. settled (ensureToken rt now c) = Inr tok \<and>
                r = api_request c tok (op_method op) (op_path op) (op_body op) \<and>
                map_of (headers r) ''Authorization'' = Some (''Bearer '' @ tok)))) \<and>
   (settled (ensureToken rt now c) = Inr tok \<longrightarrow>
      cached_token now c = Some tok \<or>
      (cached_token now c = None \<and>
       (\<exists>r data. fetch rt (token_request c) = Inr r \<and> ok r \<and>
                 json_token rt (response_text r) = Inr data \<and> tok = token data))) \<and>
   headers (token_request c) = [(''Content-Type'', ''application/json'')] \<and>
   perform rt now c GetHealth = getHealth rt c \<and>
   sent (perform rt now c GetHealth) = [health_request c] \<and>
   after (perform rt now c GetHealth) = c \<and>
   health_request c =
     \<lparr>http_method = ''GET'', url = c_baseUrl c @ ''/api/'', headers = [], body = None\<rparr>"
proof (intro conjI impI ballI)
  fix r
  assume "op \<noteq> GetHealth" and "r \<in> set (sent (perform rt now c op))"
  then have "r = token_request c \<or>
         (\<exists>tok. settled (ensureToken rt now c) = Inr tok \<and>
                r = api_request c tok (op_method op) (op_path op) (op_body op))"
    by (rule perform_requests)
  then show "r = token_request c \<or>
         (\<exists>tok. settled (ensureToken rt now c) = Inr tok \<and>
                r = api_request c tok (op_method op) (op_path op) (op_body op) \<and>
                map_of (headers r) ''Authorization'' = Some (''Bearer '' @ tok))"
    using api_request_bearer by blast
next
  assume "settled (ensureToken rt now c) = Inr tok"
  then show "cached_token now c = Some tok \<or>
      (cached_token now c = None \<and>
       (\<exists>r data. fetch rt (token_request c) = Inr r \<and> ok r \<and>
                 json_token rt (response_text r) = Inr data \<and> tok = token data))"
    by (rule ensureToken_token_origin)
next
  show "headers (token_request c) = [(''Content-Type'', ''application/json'')]"
    by (simp add: token_request_def)
  show "perform rt now c GetHealth = getHealth rt c"
    by simp
  show "sent (perform rt now c GetHealth) = [health_request c]"
    by (simp add: getHealth_parts)
  show "after (perform rt now c GetHealth) = c"
    by (simp add: getHealth_parts)
  show "health_request c =
     \<lparr>http_method = ''GET'', url = c_baseUrl c @ ''/api/'', headers = [], body = None\<rparr>"
    by (simp add: health_request_def)
qed

text \<open>
  \<^verbatim>\<open>getStream(5)\<close> on a fresh client: the token request, then the resource request with
  the token just obtained.
\<close>

theorem bearer_token_on_requests_witness:
  "sent (perform good_runtime 0 fresh_client (GetStream 5)) =
     [token_request fresh_client,
      api_request fresh_client ''eyJhbGciOi'' ''GET'' ''/nginx/streams/5'' Undefined] \<and>
   map_of (headers (sent (perform good_runtime 0 fresh_client (GetStream 5)) ! 1)) ''Authorization''
     = Some ''Bearer eyJhbGciOi'' \<and>
   cached_token 0 fresh_client = None \<and>
   fetch good_runtime (token_request fresh_client) = Inr (answer_200 ''{...}'') \<and>
   json_token good_runtime ''{...}'' = Inr good_token \<and>
   token good_token = ''eyJhbGciOi''"
proof -
  let ?out = "perform good_runtime 0 fresh_client (GetStream 5)"
  let ?req = "api_request fresh_client ''eyJhbGciOi'' ''GET'' ''/nginx/streams/5'' Undefined"
  have tok: "settled (ensureToken good_runtime 0 fresh_client) = Inr ''eyJhbGciOi''"
    by (simp add: example_defs client_defs)
  have routed: "GetStream 5 \<noteq> GetHealth"
    by simp
  have free: "\<not> (mutating (GetStream 5) \<and> c_readonly fresh_client)"
    by simp
  have absent: "cached_token 0 fresh_client = None"
    by (simp add: example_defs cached_token_def)
  have sent: "sent ?out = [token_request fresh_client, ?req]"
    unfolding perform_sent[OF routed free]
    by (simp add: ensureToken_sent absent tok show_int_5)
  have distinct: "?req \<noteq> token_request fresh_client"
    by (simp add: api_request_def token_request_def)
  have member: "sent ?out ! 1 \<in> set (sent ?out)"
    unfolding sent by simp
  note T = bearer_token_on_requests[where op = "GetStream 5" and rt = good_runtime and now = 0
      and c = fresh_client and tok = "''eyJhbGciOi''"]
  from T routed member
  have "sent ?out ! 1 = token_request fresh_client \<or>
        (\<exists>t. settled (ensureToken good_runtime 0 fresh_client) = Inr t \<and>
              map_of (headers (sent ?out ! 1)) ''Authorization'' = Some (''Bearer '' @ t))"
    by blast
  with distinct have bearer:
    "map_of (headers (sent ?out ! 1)) ''Authorization'' = Some ''Bearer eyJhbGciOi''"
    unfolding sent tok by auto
  from T tok
  have "cached_token 0 fresh_client = Some ''eyJhbGciOi'' \<or>
      (cached_token 0 fresh_client = None \<and>
       (\<exists>r data. fetch good_runtime (token_request fresh_client) = Inr r \<and> ok r \<and>
                 json_token good_runtime (response_text r) = Inr data \<and>
                 ''eyJhbGciOi'' = token data))"
    by blast
  moreover have "cached_token 0 fresh_client \<noteq> Some ''eyJhbGciOi''"
    by (simp add: example_defs cached_token_def)
  ultimately have none: "cached_token 0 fresh_client = None"
    by blast
  have rest: "fetch good_runtime (token_request fresh_client) = Inr (answer_200 ''{...}'') \<and>
     json_token good_runtime ''{...}'' = Inr good_token \<and> token good_token = ''eyJhbGciOi''"
    by (simp add: example_defs token_request_def)
  from sent bearer none rest show ?thesis
    by (intro conjI) blast+
qed

text \<open>
  The claim as written fails on the health endpoint: the only request of \<^verbatim>\<open>getHealth\<close> is
  not the token request and has no \<^verbatim>\<open>Authorization\<close> header.
\<close>

theorem bearer_token_counterexample:
  "sent (perform good_runtime 0 fresh_client GetHealth) =
     [\<lparr>http_method = ''GET'', url = ''http://npm.local:81/api/'', headers = [], body = None\<rparr>] \<and>
   map_of (headers \<lparr>http_method = ''GET'', url = ''http://npm.local:81/api/'', headers = [],
                    body = None\<rparr>) ''Authorization'' = None \<and>
   \<not> is_token_request fresh_client
       \<lparr>http_method = ''GET'', url = ''http://npm.local:81/api/'', headers = [], body = None\<rparr>"
  by (simp add: getHealth_def health_request_def example_defs client_defs)

section \<open>204 No Content\<close>

lemma ensureToken_json_irrelevant:
  "ensureToken (rt\<lparr>json := j\<rparr>) now c = ensureToken rt now c"
  by (simp add: ensureToken_def split: option.splits sum.splits)

lemma request_no_content:
  assumes "settled (ensureToken rt now c) = Inr tok"
    and "fetch rt (api_request c tok m p d) = Inr r" and "status r = 204"
  shows "settled (request rt now c m p d) = Inr (Object [])"
  using assms by (simp add: request_settled ok_def)

text \<open>
  C5, as amended. When the resource endpoint answers 204, \<^verbatim>\<open>request\<close> is fulfilled with
  the empty object, whatever \<^verbatim>\<open>response.json()\<close> would make of the body: the body is not
  parsed. So every method that goes through \<^verbatim>\<open>request\<close> is fulfilled: with the empty
  object if it returns the result of \<^verbatim>\<open>request\<close>, and with \<^verbatim>\<open>undefined\<close> if it is one of
  the six \<^verbatim>\<open>delete\<close> methods, which await the request and return nothing.
\<close>

theorem no_content_is_success:
  "(settled (ensureToken rt now c) = Inr tok \<and>
    fetch rt (api_request c tok m p d) = Inr r \<and> status r = 204 \<longrightarrow>
      settled (request rt now c m p d) = Inr (Object []) \<and>
      settled (request (rt\<lparr>json := j\<rparr>) now c m p d) = Inr (Object [])) \<and>
   (op \<noteq> GetHealth \<and> \<not> (mutating op \<and> c_readonly c) \<and>
    settled (ensureToken rt now c) = Inr tok \<and>
    fetch rt (api_request c tok (op_method op) (op_path op) (op_body op)) = Inr r' \<and>
    status r' = 204 \<longrightarrow>
      settled (perform rt now c op) = Inr (if deleting op then Undefined else Object []) \<and>
      settled (perform (rt\<lparr>json := j\<rparr>) now c op)
        = Inr (if deleting op then Undefined else Object []))"
proof (intro conjI impI)
  assume h: "settled (ensureToken rt now c) = Inr tok \<and>
    fetch rt (api_request c tok m p d) = Inr r \<and> status r = 204"
  then show "settled (request rt now c m p d) = Inr (Object [])"
    by (simp add: request_no_content)
  from h have "settled (ensureToken (rt\<lparr>json := j\<rparr>) now c) = Inr tok"
      and "fetch (rt\<lparr>json := j\<rparr>) (api_request c tok m p d) = Inr r"
    by (simp_all add: ensureToken_json_irrelevant)
  with h show "settled (request (rt\<lparr>json := j\<rparr>) now c m p d) = Inr (Object [])"
    by (simp add: request_no_content)
next
  assume h: "op \<noteq> GetHealth \<and> \<not> (mutating op \<and> c_readonly c) \<and>
    settled (ensureToken rt now c) = Inr tok \<and>
    fetch rt (api_request c tok (op_method op) (op_path op) (op_body op)) = Inr r' \<and>
    status r' = 204"
  then have "settled (request rt now c (op_method op) (op_path op) (op_body op)) = Inr (Object [])"
    by (simp add: request_no_content)
  with h show "settled (perform rt now c op) = Inr (if deleting op then Undefined else Object [])"
    by (simp add: perform_settled)
  from h have "settled (ensureToken (rt\<lparr>json := j\<rparr>) now c) = Inr tok"
      and "fetch (rt\<lparr>json := j\<rparr>) (api_request c tok (op_method op) (op_path op) (op_body op))
             = Inr r'"
    by (simp_all add: ensureToken_json_irrelevant)
  with h have "settled (request (rt\<lparr>json := j\<rparr>) now c (op_method op) (op_path op) (op_body op))
                 = Inr (Object [])"
    by (simp add: request_no_content)
  with h show "settled (perform (rt\<lparr>json := j\<rparr>) now c op)
        = Inr (if deleting op then Undefined else Object [])"
    by (simp add: perform_settled)
qed

text \<open>
  A service that answers 204 with an empty body, which \<^verbatim>\<open>response.json()\<close> would reject:
  \<^verbatim>\<open>enableStream(5)\<close> yields the empty object and \<^verbatim>\<open>deleteStream(5)\<close> yields \<^verbatim>\<open>undefined\<close>.
\<close>

theorem no_content_is_success_witness:
  "settled (request no_content_runtime 0 fresh_client ''POST'' ''/nginx/streams/5/enable'' Undefined)
     = Inr (Object []) \<and>
   settled (perform no_content_runtime 0 fresh_client (EnableStream 5)) = Inr (Object []) \<and>
   settled (perform no_content_runtime 0 fresh_client (DeleteStream 5)) = Inr Undefined \<and>
   json no_content_runtime (response_text answer_204)
     = Inl \<lparr>name = ''SyntaxError'', message = ''Unexpected end of JSON input''\<rparr>"
proof -
  have tok: "settled (ensureToken no_content_runtime 0 fresh_client) = Inr ''eyJhbGciOi''"
    by (simp add: example_defs more_example_defs client_defs)
  have answer: "fetch no_content_runtime (api_request fresh_client ''eyJhbGciOi'' m p d) = Inr answer_204"
    if "p \<noteq> ''/tokens''" for m p d
    using that by (simp add: example_defs more_example_defs api_request_def)
  have answers:
    "fetch no_content_runtime
       (api_request fresh_client ''eyJhbGciOi'' ''POST'' ''/nginx/streams/5/enable'' Undefined)
       = Inr answer_204"
    "fetch no_content_runtime
       (api_request fresh_client ''eyJhbGciOi'' (op_method (EnableStream 5))
          (op_path (EnableStream 5)) (op_body (EnableStream 5))) = Inr answer_204"
    "fetch no_content_runtime
       (api_request fresh_client ''eyJhbGciOi'' (op_method (DeleteStream 5))
          (op_path (DeleteStream 5)) (op_body (DeleteStream 5))) = Inr answer_204"
    by (rule answer, simp)+
  have status: "status answer_204 = 204"
    by (simp add: answer_204_def)
  have free: "\<not> (mutating op \<and> c_readonly fresh_client)" for op
    by (simp add: example_defs)
  have path: "op_path (EnableStream 5) = ''/nginx/streams/5/enable''"
    by (simp add: show_int_5)
  note at_request = no_content_is_success[where rt = no_content_runtime and now = 0
      and c = fresh_client and tok = "''eyJhbGciOi''" and m = "''POST''"
      and p = "''/nginx/streams/5/enable''" and d = Undefined and r = answer_204]
  note at_enable = no_content_is_success[where rt = no_content_runtime and now = 0
      and c = fresh_client and tok = "''eyJhbGciOi''" and op = "EnableStream 5" and r' = answer_204]
  note at_delete = no_content_is_success[where rt = no_content_runtime and now = 0
      and c = fresh_client and tok = "''eyJhbGciOi''" and op = "DeleteStream 5" and r' = answer_204]
  from at_request tok answers status
  have 1: "settled (request no_content_runtime 0 fresh_client ''POST'' ''/nginx/streams/5/enable''
                      Undefined) = Inr (Object [])"
    by blast
  have "EnableStream 5 \<noteq> GetHealth" and "DeleteStream 5 \<noteq> GetHealth"
    by simp_all
  with at_enable at_delete tok answers status free
  have "settled (perform no_content_runtime 0 fresh_client (EnableStream 5))
          = Inr (if deleting (EnableStream 5) then Undefined else Object [])"
    and "settled (perform no_content_runtime 0 fresh_client (DeleteStream 5))
          = Inr (if deleting (DeleteStream 5) then Undefined else Object [])"
    by blast+
  then have 2: "settled (perform no_content_runtime 0 fresh_client (EnableStream 5)) = Inr (Object [])"
    and 3: "settled (perform no_content_runtime 0 fresh_client (DeleteStream 5)) = Inr Undefined"
    by simp_all
  have 4: "json no_content_runtime (response_text answer_204)
     = Inl \<lparr>name = ''SyntaxError'', message = ''Unexpected end of JSON input''\<rparr>"
    by (simp add: example_defs more_example_defs)
  from 1 2 3 4 show ?thesis
    by (intro conjI)
qed

text \<open>
  The claim as written, with the empty object as the result of every data operation,
  fails on the \<^verbatim>\<open>delete\<close> methods: \<^verbatim>\<open>deleteStream(5)\<close> on a 204 answer is fulfilled with
  \<^verbatim>\<open>undefined\<close>.
\<close>

theorem no_content_counterexample:
  "fetch no_content_runtime
     (api_request fresh_client ''eyJhbGciOi'' ''DELETE'' ''/nginx/streams/5'' Undefined)
     = Inr \<lparr>status = 204, response_text = []\<rparr> \<and>
   sent (perform no_content_runtime 0 fresh_client (DeleteStream 5)) =
     [token_request fresh_client,
      api_request fresh_client ''eyJhbGciOi'' ''DELETE'' ''/nginx/streams/5'' Undefined] \<and>
   settled (perform no_content_runtime 0 fresh_client (DeleteStream 5)) = Inr Undefined \<and>
   Undefined \<noteq> Object []"
  by (simp add: deleteStream_def assertWritable_def returning_void_def show_int_5
        example_defs more_example_defs client_defs)

section \<open>The fields of the client\<close>

lemma ensureToken_after_shape:
  "after (ensureToken rt now c) =
     c\<lparr>c_token := c_token (after (ensureToken rt now c)),
       c_tokenExpires := c_tokenExpires (after (ensureToken rt now c))\<rparr>"
  by (simp add: ensureToken_def after_def split: option.splits sum.splits)

lemma perform_after_cases:
  "after (perform rt now c op) =
     (if op = GetHealth \<or> (mutating op \<and> c_readonly c) then c
      else after (ensureToken rt now c))"
proof (cases "op = GetHealth")
  case True
  then show ?thesis
    by (simp add: getHealth_parts)
next
  case False
  show ?thesis
  proof (cases "mutating op \<and> c_readonly c")
    case True
    then show ?thesis
      by (simp add: perform_blocked after_def)
  next
    case blocked: False
    from perform_after[OF False blocked] False blocked show ?thesis
      by auto
  qed
qed

lemma perform_frame:
  "c_baseUrl (after (perform rt now c op)) = c_baseUrl c"
  "c_email (after (perform rt now c op)) = c_email c"
  "c_password (after (perform rt now c op)) = c_password c"
  "c_readonly (after (perform rt now c op)) = c_readonly c"
  by (simp_all add: perform_after_cases ensureToken_frame)

lemma perform_after_shape:
  "after (perform rt now c op) =
     c\<lparr>c_token := c_token (after (perform rt now c op)),
       c_tokenExpires := c_tokenExpires (after (perform rt now c op))\<rparr>"
proof (cases "op = GetHealth \<or> (mutating op \<and> c_readonly c)")
  case True
  then have "after (perform rt now c op) = c"
    by (simp add: perform_after_cases)
  then show ?thesis
    by simp
next
  case False
  then have "after (perform rt now c op) = after (ensureToken rt now c)"
    by (auto simp add: perform_after_cases)
  then show ?thesis
    using ensureToken_after_shape[of rt now c] by simp
qed

lemma run_frame:
  "c_baseUrl (run c steps) = c_baseUrl c \<and> c_email (run c steps) = c_email c \<and>
   c_password (run c steps) = c_password c \<and> c_readonly (run c steps) = c_readonly c"
proof (induction steps arbitrary: c)
  case Nil
  show ?case by simp
next
  case (Cons step steps)
  obtain rt now op where step: "step = (rt, now, op)"
    by (cases step)
  from Cons.IH[of "after (perform rt now c op)"] show ?case
    by (simp add: step perform_frame)
qed

text \<open>
  C6. Every method leaves \<open>c_baseUrl\<close>, \<open>c_email\<close>, \<open>c_password\<close> and \<open>c_readonly\<close> as they
  were: the client afterwards is the client before with, at most, new values of
  \<open>c_token\<close> and \<open>c_tokenExpires\<close>, and these are the values that \<^verbatim>\<open>ensureToken\<close> leaves
  (\<^verbatim>\<open>getHealth\<close> and a blocked call change nothing). After any history of calls the four
  fields still have their values from the constructor, and \<open>isReadonly\<close> is the
  \<^verbatim>\<open>readonly\<close> of the configuration, \<open>False\<close> where that was omitted.
\<close>

theorem configuration_is_frozen:
  "c_baseUrl (after (perform rt now c op)) = c_baseUrl c \<and>
   c_email (after (perform rt now c op)) = c_email c \<and>
   c_password (after (perform rt now c op)) = c_password c \<and>
   c_readonly (after (perform rt now c op)) = c_readonly c \<and>
   after (perform rt now c op) =
     c\<lparr>c_token := c_token (after (perform rt now c op)),
       c_tokenExpires := c_tokenExpires (after (perform rt now c op))\<rparr> \<and>
   after (perform rt now c op) =
     (if op = GetHealth \<or> (mutating op \<and> c_readonly c) then c
      else after (ensureToken rt now c)) \<and>
   c_baseUrl (run (NpmApiClient config) steps) = strip_trailing_slash (baseUrl config) \<and>
   c_email (run (NpmApiClient config) steps) = email config \<and>
   c_password (run (NpmApiClient config) steps) = password config \<and>
   isReadonly (NpmApiClient config) = (case readonly config of None \<Rightarrow> False | Some b \<Rightarrow> b) \<and>
   isReadonly (run (NpmApiClient config) steps) =
     (case readonly config of None \<Rightarrow> False | Some b \<Rightarrow> b)"
proof -
  have built: "c_baseUrl (NpmApiClient config) = strip_trailing_slash (baseUrl config)"
    "c_email (NpmApiClient config) = email config"
    "c_password (NpmApiClient config) = password config"
    "c_readonly (NpmApiClient config) = (case readonly config of None \<Rightarrow> False | Some b \<Rightarrow> b)"
    by (simp_all add: NpmApiClient_def)
  have shape: "after (perform rt now c op) =
     c\<lparr>c_token := c_token (after (perform rt now c op)),
       c_tokenExpires := c_tokenExpires (after (perform rt now c op))\<rparr>"
    by (rule perform_after_shape)
  have cases: "after (perform rt now c op) =
     (if op = GetHealth \<or> (mutating op \<and> c_readonly c) then c
      else after (ensureToken rt now c))"
    by (rule perform_after_cases)
  from run_frame[of "NpmApiClient config" steps] built
  have history: "c_baseUrl (run (NpmApiClient config) steps) = strip_trailing_slash (baseUrl config)"
    "c_email (run (NpmApiClient config) steps) = email config"
    "c_password (run (NpmApiClient config) steps) = password config"
    "isReadonly (NpmApiClient config) = (case readonly config of None \<Rightarrow> False | Some b \<Rightarrow> b)"
    "isReadonly (run (NpmApiClient config) steps) =
       (case readonly config of None \<Rightarrow> False | Some b \<Rightarrow> b)"
    by (simp_all add: isReadonly_def)
  show ?thesis
    by (intro conjI) (rule perform_frame shape cases history)+
qed

section \<open>Readonly mode from the environment\<close>

lemma startup_client:
  "cli_startup env = Inr c \<Longrightarrow> c = NpmApiClient (cli_config env)"
  "server_startup env = Inr c \<Longrightarrow> c = NpmApiClient (server_config env)"
  by (simp_all add: cli_startup_def server_startup_def split: if_splits)

text \<open>
  C8. The \<^verbatim>\<open>readonly\<close> of the configuration that \<^verbatim>\<open>cli.ts\<close> and \<^verbatim>\<open>index.ts\<close> build is
  the truth value of \<^verbatim>\<open>process.env.NPM_READONLY === "true"\<close>, and the client that either
  of them constructs is readonly exactly when the variable is the string \<^verbatim>\<open>true\<close>: with
  any other value, and without the variable, the client is read-write.
\<close>

theorem readonly_iff_env_true:
  "readonly (cli_config env) = Some (env ''NPM_READONLY'' = Some ''true'') \<and>
   readonly (server_config env) = Some (env ''NPM_READONLY'' = Some ''true'') \<and>
   (cli_startup env = Inr c \<longrightarrow>
      c = NpmApiClient (cli_config env) \<and>
      (isReadonly c \<longleftrightarrow> env ''NPM_READONLY'' = Some ''true'')) \<and>
   (server_startup env = Inr c' \<longrightarrow>
      c' = NpmApiClient (server_config env) \<and>
      (isReadonly c' \<longleftrightarrow> env ''NPM_READONLY'' = Some ''true''))"
proof (intro conjI impI)
  show "readonly (cli_config env) = Some (env ''NPM_READONLY'' = Some ''true'')"
    by (simp add: cli_config_def)
  show "readonly (server_config env) = Some (env ''NPM_READONLY'' = Some ''true'')"
    by (simp add: server_config_def)
next
  assume "cli_startup env = Inr c"
  then show "c = NpmApiClient (cli_config env)"
    by (rule startup_client)
  then show "isReadonly c \<longleftrightarrow> env ''NPM_READONLY'' = Some ''true''"
    by (simp add: isReadonly_def NpmApiClient_def cli_config_def)
next
  assume "server_startup env = Inr c'"
  then show "c' = NpmApiClient (server_config env)"
    by (rule startup_client)
  then show "isReadonly c' \<longleftrightarrow> env ''NPM_READONLY'' = Some ''true''"
    by (simp add: isReadonly_def NpmApiClient_def server_config_def)
qed

text \<open>
  The variable set to \<^verbatim>\<open>true\<close>, set to \<^verbatim>\<open>TRUE\<close>, and absent.
\<close>

theorem readonly_iff_env_true_witness:
  "cli_startup (example_environment ''true'') = Inr readonly_client \<and>
   isReadonly readonly_client \<and>
   server_startup (example_environment ''true'') = Inr readonly_client \<and>
   cli_startup (example_environment ''TRUE'') = Inr fresh_client \<and>
   \<not> isReadonly fresh_client \<and>
   server_startup ((example_environment ''true'')(''NPM_READONLY'' := None)) = Inr fresh_client \<and>
   fresh_client = NpmApiClient (server_config ((example_environment ''true'')(''NPM_READONLY'' := None)))"
proof -
  have 1: "cli_startup (example_environment ''true'') = Inr readonly_client"
    and 2: "server_startup (example_environment ''true'') = Inr readonly_client"
    and 3: "cli_startup (example_environment ''TRUE'') = Inr fresh_client"
    and 4: "server_startup ((example_environment ''true'')(''NPM_READONLY'' := None)) = Inr fresh_client"
    by (simp_all add: cli_startup_def cli_config_def server_startup_def server_config_def
          example_environment_def string_or_def example_defs)
  have on: "example_environment ''true'' ''NPM_READONLY'' = Some ''true''"
    and off: "example_environment ''TRUE'' ''NPM_READONLY'' \<noteq> Some ''true''"
    by (simp_all add: example_environment_def)
  from readonly_iff_env_true[where env = "example_environment ''true''" and c = readonly_client
         and c' = readonly_client] 1 on
  have 5: "isReadonly readonly_client"
    by blast
  from readonly_iff_env_true[where env = "example_environment ''TRUE''" and c = fresh_client] 3 off
  have 6: "\<not> isReadonly fresh_client"
    by blast
  from readonly_iff_env_true[where env = "(example_environment ''true'')(''NPM_READONLY'' := None)"
         and c' = fresh_client] 4
  have 7: "fresh_client
             = NpmApiClient (server_config ((example_environment ''true'')(''NPM_READONLY'' := None)))"
    by blast
  from 1 5 2 3 6 4 7 show ?thesis
    by (intro conjI)
qed

section \<open>The base URL\<close>

lemma strip_trailing_slash_append:
  "strip_trailing_slash (u @ ''/'') = u"
  by (simp add: strip_trailing_slash_def)

lemma strip_trailing_slash_id:
  "\<not> suffix ''/'' u \<Longrightarrow> strip_trailing_slash u = u"
  by (cases u rule: rev_cases) (simp_all add: strip_trailing_slash_def suffix_def)

lemma perform_urls:
  assumes "r \<in> set (sent (perform rt now c op))"
  shows "url r = c_baseUrl c @ ''/api'' @ ''/tokens'' \<or> url r = c_baseUrl c @ ''/api'' @ op_path op"
proof (cases "op = GetHealth")
  case True
  with assms show ?thesis
    by (simp add: getHealth_parts health_request_def)
next
  case False
  from perform_requests[OF False assms]
  consider "r = token_request c"
    | tok where "r = api_request c tok (op_method op) (op_path op) (op_body op)"
    by blast
  then show ?thesis
  proof cases
    case 1
    then show ?thesis
      by (simp add: token_request_def)
  next
    case 2
    then show ?thesis
      by (simp add: api_request_def)
  qed
qed

text \<open>
  C9. The constructor removes one slash from the end of the base URL. So a base URL
  \<open>u\<close> without a trailing slash and the base URL \<open>u\<close> followed by one slash give the same
  client, and with it the same outcome of every method: the same requests, each with a
  URL that is the stripped base URL, \<^verbatim>\<open>/api\<close> and a path. Of two trailing slashes one
  is left: the base URL is then not normalised, and the client differs from that for
  \<open>u\<close>.
\<close>

theorem trailing_slash_normalised:
  "c_baseUrl (NpmApiClient (config\<lparr>baseUrl := u @ ''/''\<rparr>)) = u \<and>
   (\<not> suffix ''/'' u \<longrightarrow>
      NpmApiClient (config\<lparr>baseUrl := u @ ''/''\<rparr>) = NpmApiClient (config\<lparr>baseUrl := u\<rparr>) \<and>
      perform rt now (NpmApiClient (config\<lparr>baseUrl := u @ ''/''\<rparr>)) op =
        perform rt now (NpmApiClient (config\<lparr>baseUrl := u\<rparr>)) op \<and>
      map url (sent (perform rt now (NpmApiClient (config\<lparr>baseUrl := u @ ''/''\<rparr>)) op)) =
        map url (sent (perform rt now (NpmApiClient (config\<lparr>baseUrl := u\<rparr>)) op))) \<and>
   (\<forall>r \<in> set (sent (perform rt now c op)).
      url r = c_baseUrl c @ ''/api'' @ ''/tokens'' \<or> url r = c_baseUrl c @ ''/api'' @ op_path op) \<and>
   c_baseUrl (NpmApiClient (config\<lparr>baseUrl := u @ ''//''\<rparr>)) = u @ ''/'' \<and>
   c_baseUrl (NpmApiClient (config\<lparr>baseUrl := u @ ''//''\<rparr>))
     \<noteq> c_baseUrl (NpmApiClient (config\<lparr>baseUrl := u\<rparr>))"
proof (intro conjI impI ballI)
  show "c_baseUrl (NpmApiClient (config\<lparr>baseUrl := u @ ''/''\<rparr>)) = u"
    by (simp add: NpmApiClient_def strip_trailing_slash_append)
next
  assume "\<not> suffix ''/'' u"
  then show same: "NpmApiClient (config\<lparr>baseUrl := u @ ''/''\<rparr>) = NpmApiClient (config\<lparr>baseUrl := u\<rparr>)"
    by (simp add: NpmApiClient_def strip_trailing_slash_append strip_trailing_slash_id)
  show "perform rt now (NpmApiClient (config\<lparr>baseUrl := u @ ''/''\<rparr>)) op =
        perform rt now (NpmApiClient (config\<lparr>baseUrl := u\<rparr>)) op"
    by (rule arg_cong[where f = "\<lambda>x. perform rt now x op", OF same])
  show "map url (sent (perform rt now (NpmApiClient (config\<lparr>baseUrl := u @ ''/''\<rparr>)) op)) =
        map url (sent (perform rt now (NpmApiClient (config\<lparr>baseUrl := u\<rparr>)) op))"
    by (rule arg_cong[where f = "\<lambda>x. map url (sent (perform rt now x op))", OF same])
next
  fix r
  assume "r \<in> set (sent (perform rt now c op))"
  then show "url r = c_baseUrl c @ ''/api'' @ ''/tokens'' \<or> url r = c_baseUrl c @ ''/api'' @ op_path op"
    by (rule perform_urls)
next
  have "u @ ''//'' = (u @ ''/'') @ ''/''"
    by simp
  then have "strip_trailing_slash (u @ ''//'') = u @ ''/''"
    by (simp only: strip_trailing_slash_append)
  then show two: "c_baseUrl (NpmApiClient (config\<lparr>baseUrl := u @ ''//''\<rparr>)) = u @ ''/''"
    by (simp add: NpmApiClient_def)
  have "length (strip_trailing_slash u) \<le> length u"
    by (simp add: strip_trailing_slash_def)
  then have "strip_trailing_slash u \<noteq> u @ ''/''"
    by (auto dest: arg_cong[where f = length])
  then show "c_baseUrl (NpmApiClient (config\<lparr>baseUrl := u @ ''//''\<rparr>))
     \<noteq> c_baseUrl (NpmApiClient (config\<lparr>baseUrl := u\<rparr>))"
    unfolding two by (simp add: NpmApiClient_def)
qed

text \<open>
  The base URL \<^verbatim>\<open>http://npm.local:81\<close> with no, one and two trailing slashes.
\<close>

theorem trailing_slash_normalised_witness:
  "NpmApiClient ((example_config False)\<lparr>baseUrl := ''http://npm.local:81'' @ ''/''\<rparr>)
     = NpmApiClient ((example_config False)\<lparr>baseUrl := ''http://npm.local:81''\<rparr>) \<and>
   map url (sent (perform good_runtime 0
                    (NpmApiClient ((example_config False)\<lparr>baseUrl := ''http://npm.local:81'' @ ''/''\<rparr>))
                    (GetStream 5)))
     = map url (sent (perform good_runtime 0
                    (NpmApiClient ((example_config False)\<lparr>baseUrl := ''http://npm.local:81''\<rparr>))
                    (GetStream 5))) \<and>
   map url (sent (perform good_runtime 0 fresh_client (GetStream 5)))
     = [''http://npm.local:81/api/tokens'', ''http://npm.local:81/api/nginx/streams/5''] \<and>
   (url (sent (perform good_runtime 0 fresh_client (GetStream 5)) ! 1)
      = c_baseUrl fresh_client @ ''/api'' @ ''/tokens'' \<or>
    url (sent (perform good_runtime 0 fresh_client (GetStream 5)) ! 1)
      = c_baseUrl fresh_client @ ''/api'' @ op_path (GetStream 5)) \<and>
   c_baseUrl (NpmApiClient ((example_config False)\<lparr>baseUrl := ''http://npm.local:81//''\<rparr>))
     = ''http://npm.local:81/''"
proof -
  let ?out = "perform good_runtime 0 fresh_client (GetStream 5)"
  have plain: "\<not> suffix ''/'' ''http://npm.local:81''"
    by (simp add: suffix_def)
  have routed: "GetStream 5 \<noteq> GetHealth"
    and free: "\<not> (mutating (GetStream 5) \<and> c_readonly fresh_client)"
    by simp_all
  have tok: "settled (ensureToken good_runtime 0 fresh_client) = Inr ''eyJhbGciOi''"
    by (simp add: example_defs client_defs)
  have absent: "cached_token 0 fresh_client = None"
    by (simp add: example_defs cached_token_def)
  have sent: "sent ?out =
      [token_request fresh_client,
       api_request fresh_client ''eyJhbGciOi'' ''GET'' ''/nginx/streams/5'' Undefined]"
    unfolding perform_sent[OF routed free]
    by (simp add: ensureToken_sent absent tok show_int_5)
  have urls: "map url (sent ?out)
     = [''http://npm.local:81/api/tokens'', ''http://npm.local:81/api/nginx/streams/5'']"
    unfolding sent by (simp add: token_request_def api_request_def example_defs)
  have member: "sent ?out ! 1 \<in> set (sent ?out)"
    unfolding sent by simp
  note at_u = trailing_slash_normalised[where config = "example_config False"
      and u = "''http://npm.local:81''" and rt = good_runtime and now = 0 and op = "GetStream 5"
      and c = fresh_client]
  from at_u plain
  have 1: "NpmApiClient ((example_config False)\<lparr>baseUrl := ''http://npm.local:81'' @ ''/''\<rparr>)
     = NpmApiClient ((example_config False)\<lparr>baseUrl := ''http://npm.local:81''\<rparr>)"
    and 2: "map url (sent (perform good_runtime 0
                    (NpmApiClient ((example_config False)\<lparr>baseUrl := ''http://npm.local:81'' @ ''/''\<rparr>))
                    (GetStream 5)))
     = map url (sent (perform good_runtime 0
                    (NpmApiClient ((example_config False)\<lparr>baseUrl := ''http://npm.local:81''\<rparr>))
                    (GetStream 5)))"
    by blast+
  from at_u member
  have 3: "url (sent ?out ! 1) = c_baseUrl fresh_client @ ''/api'' @ ''/tokens'' \<or>
           url (sent ?out ! 1) = c_baseUrl fresh_client @ ''/api'' @ op_path (GetStream 5)"
    by blast
  from at_u
  have "c_baseUrl (NpmApiClient ((example_config False)\<lparr>baseUrl := ''http://npm.local:81'' @ ''//''\<rparr>))
     = ''http://npm.local:81'' @ ''/''"
    by blast
  then have 4: "c_baseUrl (NpmApiClient ((example_config False)\<lparr>baseUrl := ''http://npm.local:81//''\<rparr>))
     = ''http://npm.local:81/''"
    by simp
  from 1 2 urls 3 4 show ?thesis
    by (intro conjI)
qed

section \<open>Ids on the command line\<close>

lemmas dispatch_defs =
  dispatch_def proxy_hosts_def streams_def certificates_def redirections_def
  access_lists_def dead_hosts_def users_def with_id_def

lemma dispatch_invalid_id:
  assumes "(command, subcommand) \<in> set id_subcommands"
    and "arg args 0 = Some command" and "arg args 1 = Some subcommand"
    and "parse_int rt (arg args 2) = NaN"
  shows "dispatch rt args = Throw (Error ''Invalid ID'')"
  using assms by (auto simp add: id_subcommands_def dispatch_defs)

lemma with_id_Throw:
  "with_id rt args (\<lambda>i. Call (f i) (g i)) = Throw e \<longleftrightarrow>
     parse_int rt (arg args 2) = NaN \<and> e = Error ''Invalid ID''"
  by (auto simp add: with_id_def split: number.splits)

lemma with_id_Throw_plain:
  "with_id rt args (\<lambda>i. Call (f i) rep) = Throw e \<longleftrightarrow>
     parse_int rt (arg args 2) = NaN \<and> e = Error ''Invalid ID''"
  by (auto simp add: with_id_def split: number.splits)

lemma dispatch_Throw_branch:
  assumes "dispatch rt args = Throw e"
  shows "e = Error ''Invalid ID'' \<and> parse_int rt (arg args 2) = NaN \<and>
         (arg args 0, arg args 1) \<in> set (map (\<lambda>(command, subcommand). (Some command, Some subcommand))
                                            id_subcommands)"
  using assms
  by (simp add: dispatch_def proxy_hosts_def streams_def certificates_def redirections_def
        access_lists_def dead_hosts_def users_def with_id_Throw with_id_Throw_plain
        id_subcommands_def Let_def split: if_splits)

lemma dispatch_Throw_only:
  assumes "dispatch rt args = Throw e"
  shows "e = Error ''Invalid ID'' \<and> parse_int rt (arg args 2) = NaN \<and>
         (\<exists>command subcommand. (command, subcommand) \<in> set id_subcommands \<and>
            arg args 0 = Some command \<and> arg args 1 = Some subcommand)"
proof -
  from dispatch_Throw_branch[OF assms]
  have e: "e = Error ''Invalid ID'' \<and> parse_int rt (arg args 2) = NaN"
    and "(arg args 0, arg args 1) \<in> set (map (\<lambda>(command, subcommand). (Some command, Some subcommand))
                                            id_subcommands)"
    by blast+
  then obtain command subcommand where "(command, subcommand) \<in> set id_subcommands"
    and "arg args 0 = Some command" and "arg args 1 = Some subcommand"
    by auto
  with e show ?thesis
    by blast
qed

lemma main_Throw:
  "dispatch rt args = Throw e \<Longrightarrow>
   main rt now c args =
     \<lparr>written = [Stderr (''Error: '' @ message e)], exit_code = 1, calls = [], requests = []\<rparr>"
  by (simp add: main_def)

lemma main_Call:
  assumes "dispatch rt args = Call op rep"
  shows "calls (main rt now c args) = [op]"
    and "requests (main rt now c args) = sent (perform rt now c op)"
    and "exit_code (main rt now c args) =
           (case settled (perform rt now c op) of Inl e \<Rightarrow> 1 | Inr v \<Rightarrow> 0)"
  using assms
  by (cases "perform rt now c op"; simp add: main_def sent_def settled_def split: sum.splits)+

lemma cli_without_credentials:
  "cli_startup env = Inl line \<Longrightarrow>
   cli rt now env args = \<lparr>written = [Stderr line], exit_code = 1, calls = [], requests = []\<rparr>"
  by (simp add: cli_def)

lemma cli_with_credentials:
  "cli_startup env = Inr c \<Longrightarrow> cli rt now env args = main rt now c args"
  by (simp add: cli_def)

text \<open>
  C7. In each of the eighteen branches of \<^verbatim>\<open>main\<close> that read an id (\<^verbatim>\<open>get\<close>, \<^verbatim>\<open>delete\<close>,
  \<^verbatim>\<open>enable\<close>, \<^verbatim>\<open>disable\<close>, \<^verbatim>\<open>renew\<close> of the commands that have them), an id argument for
  which \<^verbatim>\<open>parseInt\<close> gives \<^verbatim>\<open>NaN\<close>, or no id argument at all, makes the branch throw
  \<^verbatim>\<open>Invalid ID\<close> before any client method is called: the process writes
  \<^verbatim>\<open>Error: Invalid ID\<close> to standard error and exits with code 1, and nothing is sent.
  Without credentials the process has already written an error and exited with code 1.
  Conversely, these branches are the only ones that throw before a client call.
\<close>

theorem invalid_id_is_fatal:
  "((command, subcommand) \<in> set id_subcommands \<and>
    arg args 0 = Some command \<and> arg args 1 = Some subcommand \<and>
    parse_int rt (arg args 2) = NaN \<longrightarrow>
      dispatch rt args = Throw (Error ''Invalid ID'') \<and>
      main rt now c args =
        \<lparr>written = [Stderr ''Error: Invalid ID''], exit_code = 1, calls = [], requests = []\<rparr> \<and>
      exit_code (cli rt now env args) = 1 \<and>
      calls (cli rt now env args) = [] \<and>
      requests (cli rt now env args) = [] \<and>
      (\<exists>line. written (cli rt now env args) = [Stderr line]) \<and>
      (cli_startup env = Inr c \<longrightarrow>
         cli rt now env args =
           \<lparr>written = [Stderr ''Error: Invalid ID''], exit_code = 1, calls = [],
            requests = []\<rparr>)) \<and>
   (dispatch rt args = Throw e \<longrightarrow>
      e = Error ''Invalid ID'' \<and> parse_int rt (arg args 2) = NaN \<and>
      (\<exists>command subcommand. (command, subcommand) \<in> set id_subcommands \<and>
         arg args 0 = Some command \<and> arg args 1 = Some subcommand))"
proof (intro conjI impI)
  assume h: "(command, subcommand) \<in> set id_subcommands \<and>
    arg args 0 = Some command \<and> arg args 1 = Some subcommand \<and>
    parse_int rt (arg args 2) = NaN"
  then show thrown: "dispatch rt args = Throw (Error ''Invalid ID'')"
    using dispatch_invalid_id by blast
  have run: "main rt now c' args =
        \<lparr>written = [Stderr ''Error: Invalid ID''], exit_code = 1, calls = [], requests = []\<rparr>"
    for c'
    by (simp add: main_Throw[OF thrown] Error_def)
  show "main rt now c args =
        \<lparr>written = [Stderr ''Error: Invalid ID''], exit_code = 1, calls = [], requests = []\<rparr>"
    by (rule run)
  show "exit_code (cli rt now env args) = 1"
    by (cases "cli_startup env") (simp_all add: cli_without_credentials cli_with_credentials run)
  show "calls (cli rt now env args) = []"
    by (cases "cli_startup env") (simp_all add: cli_without_credentials cli_with_credentials run)
  show "requests (cli rt now env args) = []"
    by (cases "cli_startup env") (simp_all add: cli_without_credentials cli_with_credentials run)
  show "\<exists>line. written (cli rt now env args) = [Stderr line]"
    by (cases "cli_startup env") (simp_all add: cli_without_credentials cli_with_credentials run)
  show "cli rt now env args =
           \<lparr>written = [Stderr ''Error: Invalid ID''], exit_code = 1, calls = [],
            requests = []\<rparr>"
    if "cli_startup env = Inr c"
    using that by (simp add: cli_with_credentials run)
next
  assume "dispatch rt args = Throw e"
  from dispatch_Throw_only[OF this]
  show "e = Error ''Invalid ID''" and "parse_int rt (arg args 2) = NaN"
    and "\<exists>command subcommand. (command, subcommand) \<in> set id_subcommands \<and>
         arg args 0 = Some command \<and> arg args 1 = Some subcommand"
    by blast+
qed

text \<open>
  \<^verbatim>\<open>proxy-hosts get abc\<close> and \<^verbatim>\<open>certificates renew\<close> (no id) on the example runtime.
\<close>

theorem invalid_id_is_fatal_witness:
  "parseInt good_runtime ''abc'' = NaN \<and>
   cli good_runtime 0 (example_environment ''false'') [''proxy-hosts'', ''get'', ''abc''] =
     \<lparr>written = [Stderr ''Error: Invalid ID''], exit_code = 1, calls = [], requests = []\<rparr> \<and>
   exit_code (cli good_runtime 0 (example_environment ''false'') [''certificates'', ''renew'']) = 1 \<and>
   calls (cli good_runtime 0 (example_environment ''false'') [''certificates'', ''renew'']) = [] \<and>
   dispatch good_runtime [''certificates'', ''renew''] = Throw (Error ''Invalid ID'') \<and>
   (\<exists>command subcommand. (command, subcommand) \<in> set id_subcommands \<and>
      arg [''certificates'', ''renew''] 0 = Some command \<and>
      arg [''certificates'', ''renew''] 1 = Some subcommand)"
proof -
  have nan: "parseInt good_runtime ''abc'' = NaN"
    unfolding example_defs by simp code_simp
  have started: "cli_startup (example_environment ''false'') = Inr fresh_client"
    by (simp add: cli_startup_def cli_config_def example_environment_def string_or_def
          example_defs)
  have get: "(''proxy-hosts'', ''get'') \<in> set id_subcommands \<and>
      arg [''proxy-hosts'', ''get'', ''abc''] 0 = Some ''proxy-hosts'' \<and>
      arg [''proxy-hosts'', ''get'', ''abc''] 1 = Some ''get'' \<and>
      parse_int good_runtime (arg [''proxy-hosts'', ''get'', ''abc''] 2) = NaN"
    by (simp add: id_subcommands_def arg_def parse_int_def nan)
  have renew: "(''certificates'', ''renew'') \<in> set id_subcommands \<and>
      arg [''certificates'', ''renew''] 0 = Some ''certificates'' \<and>
      arg [''certificates'', ''renew''] 1 = Some ''renew'' \<and>
      parse_int good_runtime (arg [''certificates'', ''renew''] 2) = NaN"
    by (simp add: id_subcommands_def arg_def parse_int_def)
  from invalid_id_is_fatal[where command = "''proxy-hosts''" and subcommand = "''get''"
         and args = "[''proxy-hosts'', ''get'', ''abc'']" and rt = good_runtime and now = 0
         and env = "example_environment ''false''" and c = fresh_client] get started
  have 1: "cli good_runtime 0 (example_environment ''false'') [''proxy-hosts'', ''get'', ''abc''] =
     \<lparr>written = [Stderr ''Error: Invalid ID''], exit_code = 1, calls = [], requests = []\<rparr>"
    by blast
  from invalid_id_is_fatal[where command = "''certificates''" and subcommand = "''renew''"
         and args = "[''certificates'', ''renew'']" and rt = good_runtime and now = 0
         and env = "example_environment ''false''" and c = fresh_client] renew
  have 2: "exit_code (cli good_runtime 0 (example_environment ''false'') [''certificates'', ''renew'']) = 1"
    and 3: "calls (cli good_runtime 0 (example_environment ''false'') [''certificates'', ''renew'']) = []"
    and 4: "dispatch good_runtime [''certificates'', ''renew''] = Throw (Error ''Invalid ID'')"
    by blast+
  from invalid_id_is_fatal[where args = "[''certificates'', ''renew'']" and rt = good_runtime
         and e = "Error ''Invalid ID''"] 4
  have 5: "\<exists>command subcommand. (command, subcommand) \<in> set id_subcommands \<and>
      arg [''certificates'', ''renew''] 0 = Some command \<and>
      arg [''certificates'', ''renew''] 1 = Some subcommand"
    by blast
  from nan 1 2 3 4 5 show ?thesis
    by (intro conjI)
qed

section \<open>The create subcommands\<close>

lemma flag_key_differs:
  "prefix ''--'' a \<Longrightarrow> a \<noteq> ''--'' @ k \<Longrightarrow> drop 2 a \<noteq> k"
  by (auto simp add: prefix_def)

lemma parseArgs_loop_absent:
  "''--'' @ k \<notin> set args \<Longrightarrow> parseArgs_loop args m k = m k"
proof (induction args m rule: parseArgs_loop.induct)
  case (1 result)
  show ?case by simp
next
  case (2 a result)
  then show ?case
    by (auto dest: flag_key_differs)
next
  case (3 a b rest result)
  show ?case
  proof (cases "prefix ''--'' a")
    case False
    with 3 show ?thesis
      by simp
  next
    case True
    from 3(4) have "a \<noteq> ''--'' @ k"
      by auto
    with True have key: "drop 2 a \<noteq> k"
      by (rule flag_key_differs)
    define val where "val = (if b \<noteq> [] \<and> \<not> prefix ''--'' b then b else ''true'')"
    have rest_free: "''--'' @ k \<notin> set rest" and b_free: "''--'' @ k \<notin> set (b # rest)"
      using 3(4) by auto
    have step: "parseArgs_loop (a # b # rest) result =
        (if val \<noteq> ''true'' then parseArgs_loop rest (result(drop 2 a \<mapsto> val))
         else parseArgs_loop (b # rest) (result(drop 2 a \<mapsto> val)))"
      unfolding val_def using True by (simp add: Let_def)
    show ?thesis
    proof (cases "val \<noteq> ''true''")
      case moved: True
      then have "(if b \<noteq> [] \<and> \<not> prefix ''--'' b then b else ''true'') \<noteq> ''true''"
        unfolding val_def .
      from 3(1)[OF True refl refl this rest_free]
      have "parseArgs_loop rest (result(drop 2 a \<mapsto> val)) k = (result(drop 2 a \<mapsto> val)) k"
        unfolding val_def .
      with moved key show ?thesis
        unfolding step by simp
    next
      case stayed: False
      then have "\<not> (if b \<noteq> [] \<and> \<not> prefix ''--'' b then b else ''true'') \<noteq> ''true''"
        unfolding val_def .
      from 3(2)[OF True refl refl this b_free]
      have "parseArgs_loop (b # rest) (result(drop 2 a \<mapsto> val)) k
              = (result(drop 2 a \<mapsto> val)) k"
        unfolding val_def .
      with stayed key show ?thesis
        unfolding step by simp
    qed
  qed
qed

lemma parseArgs_absent:
  "''--'' @ k \<notin> set args \<Longrightarrow> parseArgs args k = None"
  by (simp add: parseArgs_def parseArgs_loop_absent)

lemma proxy_host_input_properties:
  "property (proxy_host_input rt opts) ''domain_names'' = domains_of opts"
  "property (proxy_host_input rt opts) ''forward_host'' = String (string_or (opts ''forward-host'') [])"
  "property (proxy_host_input rt opts) ''forward_port''
     = Num (number_or (parse_int rt (opts ''forward-port'')) 80)"
  "property (proxy_host_input rt opts) ''forward_scheme''
     = String (string_or (opts ''forward-scheme'') ''http'')"
  by (simp_all add: proxy_host_input_def)

lemma dispatch_create:
  assumes "command \<in> set create_commands"
    and "arg args 0 = Some command" and "arg args 1 = Some ''create''"
  shows "\<exists>op. creating op \<and> dispatch rt args = Call op Print"
  using assms by (auto simp add: create_commands_def dispatch_defs)

lemma dispatch_create_proxy_host:
  assumes "arg args 0 = Some ''proxy-hosts''" and "arg args 1 = Some ''create''"
  shows "dispatch rt args =
           Call (CreateProxyHost (proxy_host_input rt (parseArgs (drop 2 args)))) Print"
  using assms by (simp add: dispatch_defs)

text \<open>
  C10. A \<^verbatim>\<open>create\<close> invocation is never turned down by the command line itself: for each
  of the five commands that have the subcommand, whatever the rest of the arguments is,
  the branch builds an input object and calls the \<^verbatim>\<open>create\<close> method of the client with
  it, and the exit code is 1 only if that call is rejected. For \<^verbatim>\<open>proxy-hosts create\<close> the
  object is \<open>proxy_host_input\<close> of the parsed options: without \<^verbatim>\<open>--forward-port\<close>, or
  with a value for which \<^verbatim>\<open>parseInt\<close> gives \<^verbatim>\<open>NaN\<close>, \<^verbatim>\<open>forward_port\<close> is 80; without
  \<^verbatim>\<open>--forward-scheme\<close>, \<^verbatim>\<open>forward_scheme\<close> is \<^verbatim>\<open>http\<close>; without \<^verbatim>\<open>--forward-host\<close>,
  \<^verbatim>\<open>forward_host\<close> is the empty string; without \<^verbatim>\<open>--domains\<close>, \<^verbatim>\<open>domain_names\<close> is the empty
  list. The object is handed to \<^verbatim>\<open>createProxyHost\<close> as it is, and is the body of the
  request.
\<close>

theorem create_is_never_rejected_locally:
  "(command \<in> set create_commands \<and> arg args 0 = Some command \<and>
    arg args 1 = Some ''create'' \<longrightarrow>
      (\<exists>op. creating op \<and> dispatch rt args = Call op Print \<and>
            calls (main rt now c args) = [op] \<and>
            exit_code (main rt now c args) =
              (case settled (perform rt now c op) of Inl err \<Rightarrow> 1 | Inr v \<Rightarrow> 0))) \<and>
   (arg args 0 = Some ''proxy-hosts'' \<and> arg args 1 = Some ''create'' \<longrightarrow>
      dispatch rt args =
        Call (CreateProxyHost (proxy_host_input rt (parseArgs (drop 2 args)))) Print \<and>
      calls (main rt now c args) =
        [CreateProxyHost (proxy_host_input rt (parseArgs (drop 2 args)))]) \<and>
   (''--forward-port'' \<notin> set rest \<longrightarrow>
      property (proxy_host_input rt (parseArgs rest)) ''forward_port'' = Num (Number 80)) \<and>
   (parseArgs rest ''forward-port'' = Some s \<and> parseInt rt s = NaN \<longrightarrow>
      property (proxy_host_input rt (parseArgs rest)) ''forward_port'' = Num (Number 80)) \<and>
   (''--forward-scheme'' \<notin> set rest \<longrightarrow>
      property (proxy_host_input rt (parseArgs rest)) ''forward_scheme'' = String ''http'') \<and>
   (''--forward-host'' \<notin> set rest \<longrightarrow>
      property (proxy_host_input rt (parseArgs rest)) ''forward_host'' = String []) \<and>
   (''--domains'' \<notin> set rest \<longrightarrow>
      property (proxy_host_input rt (parseArgs rest)) ''domain_names'' = Array []) \<and>
   perform rt now c (CreateProxyHost (proxy_host_input rt opts))
     = createProxyHost rt now c (proxy_host_input rt opts) \<and>
   body (api_request c tok ''POST'' ''/nginx/proxy-hosts'' (proxy_host_input rt opts))
     = Some (proxy_host_input rt opts)"
proof (intro conjI impI)
  assume h: "command \<in> set create_commands \<and> arg args 0 = Some command \<and>
    arg args 1 = Some ''create''"
  then obtain op where op: "creating op" "dispatch rt args = Call op Print"
    using dispatch_create[of command args rt] by blast
  from main_Call[OF op(2)] op
  show "\<exists>op. creating op \<and> dispatch rt args = Call op Print \<and>
            calls (main rt now c args) = [op] \<and>
            exit_code (main rt now c args) =
              (case settled (perform rt now c op) of Inl err \<Rightarrow> 1 | Inr v \<Rightarrow> 0)"
    by blast
next
  assume h: "arg args 0 = Some ''proxy-hosts'' \<and> arg args 1 = Some ''create''"
  then show d: "dispatch rt args =
        Call (CreateProxyHost (proxy_host_input rt (parseArgs (drop 2 args)))) Print"
    by (simp add: dispatch_create_proxy_host)
  show "calls (main rt now c args) =
        [CreateProxyHost (proxy_host_input rt (parseArgs (drop 2 args)))]"
    by (rule main_Call(1)[OF d])
next
  assume "''--forward-port'' \<notin> set rest"
  then have "parseArgs rest ''forward-port'' = None"
    using parseArgs_absent[of "''forward-port''" rest] by simp
  then show "property (proxy_host_input rt (parseArgs rest)) ''forward_port'' = Num (Number 80)"
    by (simp add: proxy_host_input_properties parse_int_def number_or_def)
next
  assume "parseArgs rest ''forward-port'' = Some s \<and> parseInt rt s = NaN"
  then show "property (proxy_host_input rt (parseArgs rest)) ''forward_port'' = Num (Number 80)"
    by (simp add: proxy_host_input_properties parse_int_def number_or_def)
next
  assume "''--forward-scheme'' \<notin> set rest"
  then have "parseArgs rest ''forward-scheme'' = None"
    using parseArgs_absent[of "''forward-scheme''" rest] by simp
  then show "property (proxy_host_input rt (parseArgs rest)) ''forward_scheme'' = String ''http''"
    by (simp add: proxy_host_input_properties string_or_def)
next
  assume "''--forward-host'' \<notin> set rest"
  then have "parseArgs rest ''forward-host'' = None"
    using parseArgs_absent[of "''forward-host''" rest] by simp
  then show "property (proxy_host_input rt (parseArgs rest)) ''forward_host'' = String []"
    by (simp add: proxy_host_input_properties string_or_def)
next
  assume "''--domains'' \<notin> set rest"
  then have "parseArgs rest ''domains'' = None"
    using parseArgs_absent[of "''domains''" rest] by simp
  then show "property (proxy_host_input rt (parseArgs rest)) ''domain_names'' = Array []"
    by (simp add: proxy_host_input_properties domains_of_def)
next
  show "perform rt now c (CreateProxyHost (proxy_host_input rt opts))
     = createProxyHost rt now c (proxy_host_input rt opts)"
    by simp
  show "body (api_request c tok ''POST'' ''/nginx/proxy-hosts'' (proxy_host_input rt opts))
     = Some (proxy_host_input rt opts)"
    by (simp add: api_request_def proxy_host_input_def)
qed

text \<open>
  \<^verbatim>\<open>proxy-hosts create --forward-port abc\<close>: the port is not a number and every other
  option is missing.
\<close>

theorem create_is_never_rejected_locally_witness:
  "parseArgs [''--forward-port'', ''abc''] ''forward-port'' = Some ''abc'' \<and>
   parseInt good_runtime ''abc'' = NaN \<and>
   calls (main good_runtime 0 fresh_client [''proxy-hosts'', ''create'', ''--forward-port'', ''abc''])
     = [CreateProxyHost
          (proxy_host_input good_runtime (parseArgs [''--forward-port'', ''abc'']))] \<and>
   property (proxy_host_input good_runtime (parseArgs [''--forward-port'', ''abc'']))
     ''forward_port'' = Num (Number 80) \<and>
   property (proxy_host_input good_runtime (parseArgs [])) ''forward_port'' = Num (Number 80) \<and>
   property (proxy_host_input good_runtime (parseArgs [''--forward-port'', ''abc'']))
     ''forward_scheme'' = String ''http'' \<and>
   property (proxy_host_input good_runtime (parseArgs [''--forward-port'', ''abc'']))
     ''forward_host'' = String [] \<and>
   property (proxy_host_input good_runtime (parseArgs [''--forward-port'', ''abc'']))
     ''domain_names'' = Array [] \<and>
   (\<exists>op. creating op \<and>
      calls (main good_runtime 0 fresh_client [''dead-hosts'', ''create'']) = [op])"
proof -
  let ?args = "[''proxy-hosts'', ''create'', ''--forward-port'', ''abc'']"
  let ?rest = "[''--forward-port'', ''abc'']"
  have nan: "parseInt good_runtime ''abc'' = NaN"
    unfolding example_defs by simp code_simp
  have opt: "parseArgs ?rest ''forward-port'' = Some ''abc''"
    by (simp add: parseArgs_def Let_def)
  have branch: "arg ?args 0 = Some ''proxy-hosts'' \<and> arg ?args 1 = Some ''create''"
    by (simp add: arg_def)
  have missing: "''--forward-scheme'' \<notin> set ?rest" "''--forward-host'' \<notin> set ?rest"
    "''--domains'' \<notin> set ?rest" "''--forward-port'' \<notin> set ([]::string list)"
    by simp_all
  have dead: "''dead-hosts'' \<in> set create_commands \<and>
      arg [''dead-hosts'', ''create''] 0 = Some ''dead-hosts'' \<and>
      arg [''dead-hosts'', ''create''] 1 = Some ''create''"
    by (simp add: create_commands_def arg_def)
  note T = create_is_never_rejected_locally[where rt = good_runtime and now = 0
      and c = fresh_client and args = ?args and rest = ?rest and s = "''abc''"]
  note T0 = create_is_never_rejected_locally[where rt = good_runtime and rest = "[]"]
  note Td = create_is_never_rejected_locally[where rt = good_runtime and now = 0
      and c = fresh_client and args = "[''dead-hosts'', ''create'']"
      and command = "''dead-hosts''"]
  from T branch
  have "calls (main good_runtime 0 fresh_client ?args)
     = [CreateProxyHost (proxy_host_input good_runtime (parseArgs (drop 2 ?args)))]"
    by blast
  then have 1: "calls (main good_runtime 0 fresh_client ?args)
     = [CreateProxyHost (proxy_host_input good_runtime (parseArgs ?rest))]"
    by simp
  from T opt nan
  have 2: "property (proxy_host_input good_runtime (parseArgs ?rest)) ''forward_port''
             = Num (Number 80)"
    by blast
  from T0 missing(4)
  have 3: "property (proxy_host_input good_runtime (parseArgs [])) ''forward_port''
             = Num (Number 80)"
    by blast
  from T missing
  have 4: "property (proxy_host_input good_runtime (parseArgs ?rest)) ''forward_scheme''
             = String ''http''"
    and 5: "property (proxy_host_input good_runtime (parseArgs ?rest)) ''forward_host''
             = String []"
    and 6: "property (proxy_host_input good_runtime (parseArgs ?rest)) ''domain_names''
             = Array []"
    by blast+
  from Td dead
  have 7: "\<exists>op. creating op \<and>
      calls (main good_runtime 0 fresh_client [''dead-hosts'', ''create'']) = [op]"
    by blast
  from opt nan 1 2 3 4 5 6 7 show ?thesis
    by (intro conjI)
qed

end
